theory Spec2Isabelle
  imports Complex_Main
begin

unbundle bit_operations_syntax

section \<open>Python values\<close>

text \<open>
  A Python \<open>str\<close> is a sequence of Unicode code points; \<open>ord\<close> of a character is the
  code point itself. String literals of the source are written \<open>u ''...''\<close>.
\<close>

type_synonym ustr = "nat list"

definition u :: "string \<Rightarrow> ustr" where
  "u s = map of_char s"

text \<open>
  The values a row or a mapping dictionary holds: \<open>None\<close>, a \<open>str\<close>, an \<open>int\<close>, a
  \<open>float\<close> or a \<open>list\<close> of values. A \<open>float\<close> is modelled by the real number it
  denotes; the scores of the mapper are the decimal constants of the source, added
  exactly.
\<close>

datatype pyval = PNone | PStr ustr | PInt int | PFloat real | PList "pyval list"

text \<open>A dictionary with \<open>str\<close> keys (the keys are field names).\<close>

type_synonym pydict = "string \<Rightarrow> pyval option"

text \<open>Exceptions carry the text that \<open>str(e)\<close> gives.\<close>

datatype py_error =
    KeyError ustr
  | TypeError ustr
  | AttributeError ustr
  | ZeroDivisionError ustr
  | StopIteration

fun exc_str :: "py_error \<Rightarrow> ustr" where
  "exc_str (KeyError m) = m"
| "exc_str (TypeError m) = m"
| "exc_str (AttributeError m) = m"
| "exc_str (ZeroDivisionError m) = m"
| "exc_str StopIteration = []"

fun type_name :: "pyval \<Rightarrow> ustr" where
  "type_name PNone = u ''NoneType''"
| "type_name (PStr _) = u ''str''"
| "type_name (PInt _) = u ''int''"
| "type_name (PFloat _) = u ''float''"
| "type_name (PList _) = u ''list''"

text \<open>A text between single quotes (code point 39), as error messages show names.\<close>

definition quoted :: "ustr \<Rightarrow> ustr" where
  "quoted s = [39] @ s @ [39]"

text \<open>Truth value of an object in a condition (\<open>if x\<close>, \<open>not x\<close>).\<close>

fun truthy :: "pyval \<Rightarrow> bool" where
  "truthy PNone = False"
| "truthy (PStr s) = (s \<noteq> [])"
| "truthy (PInt i) = (i \<noteq> 0)"
| "truthy (PFloat r) = (r \<noteq> 0)"
| "truthy (PList xs) = (xs \<noteq> [])"

text \<open>\<open>d.get(k)\<close>: the value, or \<open>None\<close> when the key is absent.\<close>

definition dict_get :: "pydict \<Rightarrow> string \<Rightarrow> pyval" where
  "dict_get d k = (case d k of None \<Rightarrow> PNone | Some v \<Rightarrow> v)"

section \<open>Character classes and string methods\<close>

text \<open>
  For code points below 128 the classes are fixed here. Above, \<open>str.strip\<close>,
  \<open>str.upper\<close> and the classes \<open>\s\<close>, \<open>\w\<close>, \<open>\d\<close> of \<open>re\<close> read the Unicode
  character database of the interpreter, which is taken as a parameter.
\<close>

record unicode_db =
  uc_space :: "nat \<Rightarrow> bool"
  uc_alnum :: "nat \<Rightarrow> bool"
  uc_decimal :: "nat \<Rightarrow> bool"
  uc_upper :: "nat \<Rightarrow> nat list"

definition is_space :: "unicode_db \<Rightarrow> nat \<Rightarrow> bool" where
  "is_space U c =
     (if c < 128 then (9 \<le> c \<and> c \<le> 13) \<or> (28 \<le> c \<and> c \<le> 32) else uc_space U c)"

definition ascii_digit :: "nat \<Rightarrow> bool" where
  "ascii_digit c = (48 \<le> c \<and> c \<le> 57)"

definition ascii_upper :: "nat \<Rightarrow> bool" where
  "ascii_upper c = (65 \<le> c \<and> c \<le> 90)"

definition ascii_lower :: "nat \<Rightarrow> bool" where
  "ascii_lower c = (97 \<le> c \<and> c \<le> 122)"

text \<open>\<open>\w\<close>: alphanumeric, or the underscore (code point 95).\<close>

definition is_word :: "unicode_db \<Rightarrow> nat \<Rightarrow> bool" where
  "is_word U c =
     (if c < 128 then ascii_digit c \<or> ascii_upper c \<or> ascii_lower c \<or> c = 95
      else uc_alnum U c)"

text \<open>\<open>\d\<close>: a decimal digit.\<close>

definition is_digit :: "unicode_db \<Rightarrow> nat \<Rightarrow> bool" where
  "is_digit U c = (if c < 128 then ascii_digit c else uc_decimal U c)"

text \<open>\<open>str.upper\<close> maps each character to one or more characters.\<close>

definition upper_cp :: "unicode_db \<Rightarrow> nat \<Rightarrow> nat list" where
  "upper_cp U c =
     (if c < 128 then [if ascii_lower c then c - 32 else c] else uc_upper U c)"

definition py_upper :: "unicode_db \<Rightarrow> ustr \<Rightarrow> ustr" where
  "py_upper U s = concat (map (upper_cp U) s)"

definition strip_where :: "(nat \<Rightarrow> bool) \<Rightarrow> ustr \<Rightarrow> ustr" where
  "strip_where P s = rev (dropWhile P (rev (dropWhile P s)))"

text \<open>\<open>s.strip()\<close> and \<open>s.strip(chars)\<close>.\<close>

definition py_strip :: "unicode_db \<Rightarrow> ustr \<Rightarrow> ustr" where
  "py_strip U s = strip_where (is_space U) s"

definition py_strip_chars :: "ustr \<Rightarrow> ustr \<Rightarrow> ustr" where
  "py_strip_chars chars s = strip_where (\<lambda>c. c \<in> set chars) s"

text \<open>\<open>re.sub(r'\s+', '-', s)\<close>: every maximal run of whitespace becomes one hyphen (45).\<close>

function sub_spaces :: "unicode_db \<Rightarrow> ustr \<Rightarrow> ustr" where
  "sub_spaces U [] = []"
| "sub_spaces U (c # cs) =
     (if is_space U c then 45 # sub_spaces U (dropWhile (is_space U) cs)
      else c # sub_spaces U cs)"
  by pat_completeness auto
termination
  by (relation "measure (\<lambda>(U, s). length s)")
     (auto simp: le_imp_less_Suc length_dropWhile_le)

text \<open>\<open>re.sub(r'[^\w\-]', '', s)\<close>.\<close>

definition drop_special :: "unicode_db \<Rightarrow> ustr \<Rightarrow> ustr" where
  "drop_special U s = filter (\<lambda>c. is_word U c \<or> c = 45) s"

text \<open>An ASCII string: every code point is below 128.\<close>

definition ascii :: "ustr \<Rightarrow> bool" where
  "ascii s = list_all (\<lambda>c. c < 128) s"

section \<open>The normalizer\<close>

text \<open>
  \<open>_clean_sku\<close>. A falsy argument gives the empty string; any other argument that is
  not a \<open>str\<close> has no \<open>strip\<close> method.
\<close>

definition clean_sku :: "unicode_db \<Rightarrow> pyval \<Rightarrow> py_error + ustr" where
  "clean_sku U sku =
     (if \<not> truthy sku then Inr []
      else case sku of
        PStr s \<Rightarrow>
          (let cleaned = py_strip_chars [34, 39] (py_strip U s);
               cleaned = sub_spaces U cleaned;
               cleaned = drop_special U cleaned
           in Inr (py_upper U cleaned))
      | _ \<Rightarrow> Inl (AttributeError
                 (quoted (type_name sku) @ u '' object has no attribute '' @
                  quoted (u ''strip''))))"

section \<open>The hash of the synthesizer\<close>

text \<open>\<open>format(n, 'X')\<close> for \<open>n \<ge> 0\<close>: upper-case hexadecimal, no padding.\<close>

definition hex_digit :: "int \<Rightarrow> nat" where
  "hex_digit d = (if d < 10 then 48 + nat d else 55 + nat d)"

function format_X :: "int \<Rightarrow> ustr" where
  "format_X n = (if n < 16 then [hex_digit n] else format_X (n div 16) @ [hex_digit (n mod 16)])"
  by pat_completeness auto
termination
  by (relation "measure nat") auto

declare format_X.simps [simp del]

text \<open>The loop of \<open>_simple_hash\<close>, on Python's unbounded integers.\<close>

definition hash_step :: "int \<Rightarrow> nat \<Rightarrow> int" where
  "hash_step hash_value char =
     (let hash_value = (push_bit 5 hash_value - hash_value) + int char
      in hash_value AND 0xFFFFFFFF)"

definition hash_loop :: "ustr \<Rightarrow> int" where
  "hash_loop text = foldl hash_step 0 text"

definition simple_hash :: "ustr \<Rightarrow> ustr" where
  "simple_hash text = take 6 (format_X \<bar>hash_loop text\<bar>)"

text \<open>
  The hash as the specification words it: \<open>hash = hash * 31 + char_code\<close>, wrapped to
  32 bits. It is compared with \<open>hash_loop\<close> below.
\<close>

definition rolling_hash :: "ustr \<Rightarrow> int" where
  "rolling_hash text = foldl (\<lambda>hash char. (hash * 31 + int char) mod 2 ^ 32) 0 text"

section \<open>Regular expressions\<close>

text \<open>
  The fragment of \<open>re\<close> that the patterns of the source use: a character class, a
  sequence, an alternative, a bounded repetition \<open>r{m,n}\<close> and \<open>r*\<close>. \<open>run r s\<close> lists
  what can remain of \<open>s\<close> after \<open>r\<close> has matched a prefix of it, which is what a
  backtracking matcher explores.
\<close>

datatype rx =
    Cls "nat \<Rightarrow> bool"
  | Seq rx rx
  | Alt rx rx
  | Rep nat nat rx
  | Star rx

fun rep_run :: "(ustr \<Rightarrow> ustr list) \<Rightarrow> nat \<Rightarrow> nat \<Rightarrow> ustr \<Rightarrow> ustr list" where
  "rep_run f m 0 s = (if m = 0 then [s] else [])"
| "rep_run f m (Suc n) s =
     (if m = 0 then [s] else []) @ concat (map (rep_run f (m - 1) n) (f s))"

text \<open>
  An iteration of \<open>r*\<close> that consumes nothing changes nothing, so \<open>length s\<close> iterations
  reach every remainder.
\<close>

primrec run :: "rx \<Rightarrow> ustr \<Rightarrow> ustr list" where
  "run (Cls P) s = (case s of [] \<Rightarrow> [] | c # cs \<Rightarrow> if P c then [cs] else [])"
| "run (Seq a b) s = concat (map (run b) (run a s))"
| "run (Alt a b) s = run a s @ run b s"
| "run (Rep m n r) s = rep_run (run r) m n s"
| "run (Star r) s = rep_run (run r) 0 (length s) s"

text \<open>
  \<open>re.match(r'^R$', s)\<close> finds a match: \<open>R\<close> matches from the start, and \<open>$\<close> holds at
  the end of the string or just before a newline (10) that ends it.
\<close>

definition re_match :: "rx \<Rightarrow> ustr \<Rightarrow> bool" where
  "re_match r s = list_ex (\<lambda>rest. rest = [] \<or> rest = [10]) (run r s)"

definition chr :: "nat \<Rightarrow> rx" where
  "chr c = Cls (\<lambda>x. x = c)"

section \<open>Format validation\<close>

text \<open>\<open>[A-Z]{2,4}-\d{4,8}\<close>, the item of the \<open>standard\<close> and \<open>combo\<close> patterns.\<close>

definition standard_item :: "unicode_db \<Rightarrow> rx" where
  "standard_item U = Seq (Rep 2 4 (Cls ascii_upper)) (Seq (chr 45) (Rep 4 8 (Cls (is_digit U))))"

text \<open>\<open>self.patterns\<close>, in the order of the source (66 is \<open>B\<close>, 45 \<open>-\<close>, 95 \<open>_\<close>, 44 the comma).\<close>

definition patterns :: "unicode_db \<Rightarrow> (ustr \<times> rx) list" where
  "patterns U =
     [(u ''amazon'',
         Alt (Seq (chr 66) (Rep 9 9 (Cls (\<lambda>c. ascii_digit c \<or> ascii_upper c))))
             (Rep 10 10 (Cls (\<lambda>c. ascii_upper c \<or> ascii_digit c)))),
      (u ''ebay'', Rep 12 12 (Cls ascii_digit)),
      (u ''shopify'',
         Rep 1 100 (Cls (\<lambda>c. ascii_lower c \<or> ascii_upper c \<or> ascii_digit c \<or> c = 45 \<or> c = 95))),
      (u ''walmart'', Rep 8 15 (Cls (\<lambda>c. ascii_upper c \<or> ascii_digit c))),
      (u ''standard'', standard_item U),
      (u ''combo'', Seq (standard_item U) (Star (Seq (chr 44) (standard_item U))))]"

text \<open>
  \<open>validate_sku\<close>. The marketplace may be \<open>None\<close> or any other value; a value that is
  not a key of \<open>self.patterns\<close> makes every pattern a candidate. \<open>marketplace in
  self.patterns\<close> hashes the value, which raises on a list.
\<close>

definition pattern_for :: "unicode_db \<Rightarrow> pyval \<Rightarrow> py_error + rx option" where
  "pattern_for U marketplace =
     (if truthy marketplace
      then (case marketplace of
              PStr m \<Rightarrow> Inr (map_of (patterns U) m)
            | PList xs \<Rightarrow> Inl (TypeError (u ''unhashable type: '' @ quoted (u ''list'')))
            | _ \<Rightarrow> Inr None)
      else Inr None)"

definition validate_sku :: "unicode_db \<Rightarrow> pyval \<Rightarrow> pyval \<Rightarrow> py_error + bool" where
  "validate_sku U sku marketplace =
     (if \<not> truthy sku then Inr False
      else case sku of
        PStr s \<Rightarrow>
          (if py_strip U s = [] then Inr False
           else let sku = py_upper U (py_strip U s)
                in case pattern_for U marketplace of
                     Inl e \<Rightarrow> Inl e
                   | Inr (Some pattern) \<Rightarrow> Inr (re_match pattern sku)
                   | Inr None \<Rightarrow>
                       Inr (list_ex (\<lambda>(k, pattern). re_match pattern sku) (patterns U)))
      | _ \<Rightarrow> Inl (AttributeError
                 (quoted (type_name sku) @ u '' object has no attribute '' @
                  quoted (u ''strip''))))"

section \<open>Marketplace transforms\<close>

definition process_amazon_sku :: "ustr \<Rightarrow> ustr" where
  "process_amazon_sku sku =
     (if take 1 sku = [66] \<and> length sku = 10 then u ''AMZ-'' @ sku else sku)"

text \<open>\<open>sku[-8:]\<close> is the last eight characters (the whole string when it is shorter).\<close>

definition process_ebay_sku :: "unicode_db \<Rightarrow> ustr \<Rightarrow> ustr" where
  "process_ebay_sku U sku =
     (if re_match (Rep 12 12 (Cls (is_digit U))) sku
      then u ''EBY-'' @ drop (length sku - 8) sku else sku)"

definition process_shopify_sku :: "ustr \<Rightarrow> ustr" where
  "process_shopify_sku sku =
     (let cleaned = filter (\<lambda>c. ascii_lower c \<or> ascii_upper c \<or> ascii_digit c \<or> c = 45) sku
      in u ''SHO-'' @ cleaned)"

definition process_walmart_sku :: "ustr \<Rightarrow> ustr" where
  "process_walmart_sku sku =
     (if re_match (Rep 8 15 (Cls (\<lambda>c. ascii_upper c \<or> ascii_digit c))) sku
      then u ''WMT-'' @ sku else sku)"

definition marketplace_rules :: "unicode_db \<Rightarrow> (ustr \<times> (ustr \<Rightarrow> ustr)) list" where
  "marketplace_rules U =
     [(u ''amazon'', process_amazon_sku),
      (u ''ebay'', process_ebay_sku U),
      (u ''shopify'', process_shopify_sku),
      (u ''walmart'', process_walmart_sku)]"

definition apply_marketplace_rules :: "unicode_db \<Rightarrow> ustr \<Rightarrow> ustr \<Rightarrow> ustr" where
  "apply_marketplace_rules U sku marketplace =
     (case map_of (marketplace_rules U) marketplace of
        Some rule \<Rightarrow> rule sku
      | None \<Rightarrow> sku)"

section \<open>The catalog\<close>

text \<open>
  The columns of \<open>Product\<close> and \<open>MarketplaceListing\<close> that the mapper reads. \<open>sku\<close> is
  not nullable, \<open>msku\<close> is. A query is a search of the table; \<open>first()\<close> is the first
  row found. Failures of the database itself are outside this model.
\<close>

record product =
  product_id :: ustr
  product_sku :: ustr
  product_msku :: "ustr option"
  product_name :: ustr

record listing =
  listing_product_id :: ustr
  listing_platform :: ustr
  listing_marketplace_sku :: ustr

record database =
  products :: "product list"
  listings :: "listing list"

text \<open>
  \<open>process.extractOne(query, choices, scorer=fuzz.ratio)\<close> of the fuzzywuzzy library:
  the best choice with its score, or \<open>None\<close>. It is a parameter of the lookup.
\<close>

type_synonym extract_one = "ustr \<Rightarrow> ustr list \<Rightarrow> (ustr \<times> int) option"

text \<open>\<open>_fuzzy_match_product\<close>; \<open>next\<close> on an exhausted generator raises \<open>StopIteration\<close>.\<close>

definition fuzzy_match_product ::
  "extract_one \<Rightarrow> ustr \<Rightarrow> database \<Rightarrow> int \<Rightarrow> py_error + product option" where
  "fuzzy_match_product extractOne sku db threshold =
     (let ps = products db in
      if ps = [] then Inr None
      else
        let sku_list = map product_sku (filter (\<lambda>p. product_sku p \<noteq> []) ps);
            msku_list = List.map_filter
              (\<lambda>p. case product_msku p of
                     Some m \<Rightarrow> if m \<noteq> [] then Some m else None
                   | None \<Rightarrow> None) ps;
            by_sku = (case extractOne sku sku_list of
                        Some (choice, score) \<Rightarrow> if score \<ge> threshold then Some choice else None
                      | None \<Rightarrow> None)
        in case by_sku of
             Some choice \<Rightarrow>
               (case find (\<lambda>p. product_sku p = choice) ps of
                  Some p \<Rightarrow> Inr (Some p)
                | None \<Rightarrow> Inl StopIteration)
           | None \<Rightarrow>
               (case (case extractOne sku msku_list of
                        Some (choice, score) \<Rightarrow> if score \<ge> threshold then Some choice else None
                      | None \<Rightarrow> None) of
                  Some choice \<Rightarrow>
                    (case find (\<lambda>p. product_msku p = Some choice) ps of
                       Some p \<Rightarrow> Inr (Some p)
                     | None \<Rightarrow> Inl StopIteration)
                | None \<Rightarrow> Inr None))"

text \<open>\<open>_find_existing_product\<close>; \<open>listing.product\<close> is the product the listing refers to.\<close>

definition find_existing_product ::
  "extract_one \<Rightarrow> ustr \<Rightarrow> ustr \<Rightarrow> database \<Rightarrow> py_error + product option" where
  "find_existing_product extractOne mapped_sku marketplace db =
     (case find (\<lambda>p. product_sku p = mapped_sku) (products db) of
        Some p \<Rightarrow> Inr (Some p)
      | None \<Rightarrow>
     (case find (\<lambda>p. product_msku p = Some mapped_sku) (products db) of
        Some p \<Rightarrow> Inr (Some p)
      | None \<Rightarrow>
     (case find (\<lambda>l. listing_marketplace_sku l = mapped_sku \<and> listing_platform l = marketplace)
             (listings db) of
        Some l \<Rightarrow> Inr (find (\<lambda>p. product_id p = listing_product_id l) (products db))
      | None \<Rightarrow> fuzzy_match_product extractOne mapped_sku db 80)))"

section \<open>Synthesizer and scorer\<close>

definition generate_msku :: "unicode_db \<Rightarrow> ustr \<Rightarrow> ustr \<Rightarrow> product option \<Rightarrow> ustr" where
  "generate_msku U mapped_sku marketplace existing_product =
     (case existing_product of
        Some p \<Rightarrow>
          (case product_msku p of
             Some m \<Rightarrow> if m \<noteq> [] then m else product_sku p
           | None \<Rightarrow> product_sku p)
      | None \<Rightarrow>
          (let prefix = take 3 (py_upper U marketplace);
               hash_value = simple_hash mapped_sku
           in u ''WMS-'' @ prefix @ u ''-'' @ hash_value))"

text \<open>
  \<open>_calculate_confidence\<close>. \<open>len\<close> and \<open>in\<close> work on a string and on a list, and
  \<open>len\<close> of any other value raises. The scores are added as exact decimals, where
  the interpreter rounds each sum to binary64 (there \<open>0.5 + 0.2 + 0.1 + 0.1\<close> is
  \<open>0.8999999999999999\<close>, just below 0.9); the properties below rest on the order of
  the sums only: the terms added are positive and \<open>min\<close> caps the result at 1.
\<close>

definition calculate_confidence ::
  "unicode_db \<Rightarrow> pyval \<Rightarrow> ustr \<Rightarrow> product option \<Rightarrow> ustr \<Rightarrow> py_error + real" where
  "calculate_confidence U original_sku mapped_sku existing_product marketplace =
     (case validate_sku U original_sku (PStr marketplace) of
        Inl e \<Rightarrow> Inl e
      | Inr format_ok \<Rightarrow>
          (let confidence = 0.5;
               confidence = (if format_ok then confidence + 0.2 else confidence);
               confidence = (case existing_product of
                               Some p \<Rightarrow>
                                 (let confidence = confidence + 0.3
                                  in if product_sku p = mapped_sku then 1.0 else confidence)
                             | None \<Rightarrow> confidence);
               confidence = (if map_of (marketplace_rules U) marketplace \<noteq> None
                             then confidence + 0.1 else confidence)
           in case original_sku of
                PStr s \<Rightarrow>
                  (let confidence = (if length s \<ge> 8 \<and> 45 \<in> set s
                                     then confidence + 0.1 else confidence)
                   in Inr (min confidence 1.0))
              | PList xs \<Rightarrow>
                  (let confidence = (if length xs \<ge> 8 \<and> PStr [45] \<in> set xs
                                     then confidence + 0.1 else confidence)
                   in Inr (min confidence 1.0))
              | _ \<Rightarrow> Inl (TypeError (u ''object of type '' @ quoted (type_name original_sku) @
                                      u '' has no len()''))))"

definition determine_mapping_method :: "real \<Rightarrow> product option \<Rightarrow> ustr" where
  "determine_mapping_method confidence existing_product =
     (if existing_product \<noteq> None \<and> confidence \<ge> 0.9 then u ''automatic''
      else if confidence \<ge> 0.7 then u ''ai_suggested''
      else u ''manual'')"

definition generate_mapping_notes :: "real \<Rightarrow> product option \<Rightarrow> ustr" where
  "generate_mapping_notes confidence existing_product =
     (let tier = (if confidence \<ge> 0.9 then u ''High confidence automatic mapping''
                  else if confidence \<ge> 0.7 then u ''AI suggested mapping - review recommended''
                  else u ''Low confidence mapping - manual review required'');
          matched = (case existing_product of
                       Some p \<Rightarrow> u ''Matched to existing product: '' @ product_name p
                     | None \<Rightarrow> u ''No existing product match found'')
      in tier @ u ''; '' @ matched)"

section \<open>The orchestrator\<close>

text \<open>
  \<open>map_sku\<close> returns the dictionary of the mapping, or raises: its handler logs and
  raises the exception again.
\<close>

definition map_sku ::
  "unicode_db \<Rightarrow> extract_one \<Rightarrow> pyval \<Rightarrow> ustr \<Rightarrow> database \<Rightarrow> py_error + pydict" where
  "map_sku U extractOne original_sku marketplace db =
     (case clean_sku U original_sku of
        Inl e \<Rightarrow> Inl e
      | Inr cleaned_sku \<Rightarrow>
     (let mapped_sku = apply_marketplace_rules U cleaned_sku marketplace in
      case find_existing_product extractOne mapped_sku marketplace db of
        Inl e \<Rightarrow> Inl e
      | Inr existing_product \<Rightarrow>
     (let msku = generate_msku U mapped_sku marketplace existing_product in
      case calculate_confidence U original_sku mapped_sku existing_product marketplace of
        Inl e \<Rightarrow> Inl e
      | Inr confidence \<Rightarrow>
     (let mapping_method = determine_mapping_method confidence existing_product
      in Inr [''original_sku'' \<mapsto> original_sku,
              ''mapped_sku'' \<mapsto> PStr mapped_sku,
              ''msku'' \<mapsto> PStr msku,
              ''marketplace'' \<mapsto> PStr marketplace,
              ''confidence'' \<mapsto> PFloat confidence,
              ''mapping_method'' \<mapsto> PStr mapping_method,
              ''product_id'' \<mapsto> (case existing_product of
                                        Some p \<Rightarrow> PStr (product_id p)
                                      | None \<Rightarrow> PNone),
              ''notes'' \<mapsto> PStr (generate_mapping_notes confidence existing_product)]))))"

text \<open>
  The call in the \<open>try\<close> block of \<open>batch_map_skus\<close>: \<open>sku_data['sku']\<close> raises
  \<open>KeyError\<close> when the key is absent.
\<close>

definition map_item ::
  "unicode_db \<Rightarrow> extract_one \<Rightarrow> ustr \<Rightarrow> database \<Rightarrow> pydict \<Rightarrow> py_error + pydict" where
  "map_item U extractOne marketplace db sku_data =
     (case sku_data ''sku'' of
        None \<Rightarrow> Inl (KeyError (quoted (u ''sku'')))
      | Some original_sku \<Rightarrow> map_sku U extractOne original_sku marketplace db)"

text \<open>
  The body of the loop: \<open>result.update(sku_data)\<close> is \<open>result ++ sku_data\<close>; any
  exception gives the record of the handler. The handler reads the row with \<open>get\<close> and
  formats the exception, which cannot raise on a dictionary, so the body always yields a
  record.
\<close>

definition batch_item ::
  "unicode_db \<Rightarrow> extract_one \<Rightarrow> ustr \<Rightarrow> database \<Rightarrow> pydict \<Rightarrow> pydict" where
  "batch_item U extractOne marketplace db sku_data =
     (case map_item U extractOne marketplace db sku_data of
        Inr result \<Rightarrow> result ++ sku_data
      | Inl e \<Rightarrow>
          [''original_sku'' \<mapsto> dict_get sku_data ''sku'',
           ''error'' \<mapsto> PStr (exc_str e),
           ''confidence'' \<mapsto> PFloat 0.0,
           ''mapping_method'' \<mapsto> PStr (u ''failed'')])"

text \<open>\<open>batch_map_skus\<close> on a list of dictionaries: the loop appends one record per row.\<close>

definition batch_map_skus ::
  "unicode_db \<Rightarrow> extract_one \<Rightarrow> pydict list \<Rightarrow> ustr \<Rightarrow> database \<Rightarrow> pydict list" where
  "batch_map_skus U extractOne sku_list marketplace db =
     foldl (\<lambda>results sku_data. results @ [batch_item U extractOne marketplace db sku_data])
       [] sku_list"

text \<open>
  The type hint of \<open>sku_list\<close> is \<open>List[Dict]\<close>. A row that is not a dictionary
  raises in the \<open>try\<close> block at \<open>sku_data['sku']\<close> and again in the handler at
  \<open>sku_data.get\<close>, and that exception leaves the function with no result.
  \<open>batch_map_skus_rows\<close> is the function on rows of either kind; on dictionaries it
  returns what \<open>batch_map_skus\<close> gives (\<open>batch_map_skus_rows_dicts\<close> below).
\<close>

datatype row = Dict pydict | NotDict pyval

fun batch_loop ::
  "unicode_db \<Rightarrow> extract_one \<Rightarrow> ustr \<Rightarrow> database \<Rightarrow> row list \<Rightarrow> pydict list \<Rightarrow>
   py_error + pydict list" where
  "batch_loop U extractOne marketplace db [] results = Inr results"
| "batch_loop U extractOne marketplace db (Dict sku_data # rest) results =
     batch_loop U extractOne marketplace db rest
       (results @ [batch_item U extractOne marketplace db sku_data])"
| "batch_loop U extractOne marketplace db (NotDict v # rest) results =
     Inl (AttributeError (quoted (type_name v) @ u '' object has no attribute '' @
                          quoted (u ''get'')))"

definition batch_map_skus_rows ::
  "unicode_db \<Rightarrow> extract_one \<Rightarrow> row list \<Rightarrow> ustr \<Rightarrow> database \<Rightarrow> py_error + pydict list" where
  "batch_map_skus_rows U extractOne sku_list marketplace db =
     batch_loop U extractOne marketplace db sku_list []"

section \<open>The batch validator\<close>

text \<open>
  A mapping record of the types that \<open>map_sku\<close> gives its fields: \<open>original_sku\<close> and
  \<open>marketplace\<close> are strings, or \<open>None\<close> or absent as in the record of the handler of
  the batch, and \<open>confidence\<close>, when present, is a number.
\<close>

definition mapping_record :: "pydict \<Rightarrow> bool" where
  "mapping_record m =
     ((case dict_get m ''original_sku'' of PNone \<Rightarrow> True | PStr s \<Rightarrow> True | _ \<Rightarrow> False) \<and>
      (case dict_get m ''marketplace'' of PNone \<Rightarrow> True | PStr s \<Rightarrow> True | _ \<Rightarrow> False) \<and>
      (case m ''confidence'' of
         None \<Rightarrow> True | Some (PFloat r) \<Rightarrow> True | Some (PInt i) \<Rightarrow> True | _ \<Rightarrow> False))"

text \<open>\<open>x < 0.6\<close> for the value of the \<open>confidence\<close> key; only numbers compare with a float.\<close>

definition below_06 :: "pyval \<Rightarrow> py_error + bool" where
  "below_06 x =
     (case x of
        PFloat r \<Rightarrow> Inr (r < 0.6)
      | PInt i \<Rightarrow> Inr (real_of_int i < 0.6)
      | _ \<Rightarrow> Inl (TypeError (quoted (u ''<'') @ u '' not supported between instances of '' @
                              quoted (type_name x) @ u '' and '' @ quoted (u ''float''))))"

text \<open>
  The text of a warning. It is built only for a record that \<open>validate_sku\<close> accepted,
  whose \<open>original_sku\<close> is therefore a string (\<open>validate_sku_True_str\<close> below); the
  text for any other value is left unspecified.
\<close>

fun warning_for :: "pyval \<Rightarrow> ustr" where
  "warning_for (PStr s) = u ''Low confidence mapping for SKU: '' @ s"

fun validate_loop ::
  "unicode_db \<Rightarrow> pydict list \<Rightarrow> pydict list \<times> pydict list \<times> ustr list \<Rightarrow>
   py_error + (pydict list \<times> pydict list \<times> ustr list)" where
  "validate_loop U [] acc = Inr acc"
| "validate_loop U (mapping # rest) (valid_mappings, invalid_mappings, warnings) =
     (case validate_sku U (dict_get mapping ''original_sku'') (dict_get mapping ''marketplace'') of
        Inl e \<Rightarrow> Inl e
      | Inr True \<Rightarrow>
          (case below_06 (case mapping ''confidence'' of None \<Rightarrow> PInt 0 | Some c \<Rightarrow> c) of
             Inl e \<Rightarrow> Inl e
           | Inr low \<Rightarrow>
               validate_loop U rest
                 (valid_mappings @ [mapping], invalid_mappings,
                  if low then warnings @ [warning_for (dict_get mapping ''original_sku'')]
                  else warnings))
      | Inr False \<Rightarrow>
          validate_loop U rest (valid_mappings, invalid_mappings @ [mapping], warnings))"

text \<open>
  \<open>a / b\<close> on two lengths: division by zero raises, and the quotient is rounded to the
  nearest binary64. The rounding is a parameter.
\<close>

type_synonym rounding = "real \<Rightarrow> real"

definition py_truediv :: "rounding \<Rightarrow> nat \<Rightarrow> nat \<Rightarrow> py_error + real" where
  "py_truediv fl a b =
     (if b = 0 then Inl (ZeroDivisionError (u ''division by zero''))
      else Inr (fl (real a / real b)))"

record validation_report =
  report_valid :: "pydict list"
  report_invalid :: "pydict list"
  report_warnings :: "ustr list"
  total_processed :: nat
  success_rate :: real

definition validate_mapping_batch ::
  "unicode_db \<Rightarrow> rounding \<Rightarrow> pydict list \<Rightarrow> py_error + validation_report" where
  "validate_mapping_batch U fl mappings =
     (case validate_loop U mappings ([], [], []) of
        Inl e \<Rightarrow> Inl e
      | Inr (valid_mappings, invalid_mappings, warnings) \<Rightarrow>
          (case (if mappings \<noteq> []
                 then py_truediv fl (length valid_mappings) (length mappings)
                 else Inr 0) of
             Inl e \<Rightarrow> Inl e
           | Inr rate \<Rightarrow>
               Inr \<lparr>report_valid = valid_mappings,
                    report_invalid = invalid_mappings,
                    report_warnings = warnings,
                    total_processed = length mappings,
                    success_rate = rate\<rparr>))"

section \<open>Example data\<close>

text \<open>
  The entries of the Unicode character database for the two code points above 127 that
  the examples use: U+01F0 (LATIN SMALL LETTER J WITH CARON, a letter whose upper case
  is the two code points U+004A U+030C) and U+030C (COMBINING CARON, a nonspacing mark:
  not alphanumeric, no case). No example contains another code point above 127, so the
  entries given to the others are never read.
\<close>

definition unicode_fragment :: unicode_db where
  "unicode_fragment =
     \<lparr>uc_space = (\<lambda>c. False),
      uc_alnum = (\<lambda>c. c = 0x1F0),
      uc_decimal = (\<lambda>c. False),
      uc_upper = (\<lambda>c. if c = 0x1F0 then [0x4A, 0x30C] else [c])\<rparr>"

text \<open>A stand-in for \<open>extractOne\<close> that scores an equal choice 100 and any other 0.\<close>

definition extract_equal :: extract_one where
  "extract_equal query choices =
     (case choices of
        [] \<Rightarrow> None
      | c # cs \<Rightarrow> if query \<in> set choices then Some (query, 100) else Some (c, 0))"

text \<open>
  Binary64 holds 1/2, 0 and 1 exactly, so on the quotients of the examples rounding to
  the nearest float changes nothing.
\<close>

definition exact_rounding :: rounding where
  "exact_rounding x = x"

definition empty_catalog :: database where
  "empty_catalog = \<lparr>products = [], listings = []\<rparr>"

definition widget :: product where
  "widget = \<lparr>product_id = u ''p-1'', product_sku = u ''AMZ-B001122334'',
             product_msku = Some (u ''MSKU-0001''), product_name = u ''Widget''\<rparr>"

definition small_catalog :: database where
  "small_catalog = \<lparr>products = [widget], listings = []\<rparr>"

text \<open>
  Rows of a batch: a row whose SKU matches the catalog, a row without the key \<open>sku\<close>, a
  row whose SKU is \<open>None\<close>, and a row that carries fields named like computed ones.
\<close>

definition example_rows :: "pydict list" where
  "example_rows =
     [ [''sku'' \<mapsto> PStr (u ''b001122334''), ''quantity'' \<mapsto> PInt 2],
      [''name'' \<mapsto> PStr (u ''no sku here'')],
      [''sku'' \<mapsto> PNone],
      [''sku'' \<mapsto> PStr (u ''b001122334''), ''notes'' \<mapsto> PStr (u ''from the sheet''),
       ''mapped_sku'' \<mapsto> PInt 7] ]"

text \<open>
  Records for the validator: a valid one, a valid one of low confidence on a marketplace
  without a pattern of its own, one of invalid format, and the record of a failed row.
\<close>

definition example_mappings :: "pydict list" where
  "example_mappings =
     [ [''original_sku'' \<mapsto> PStr (u ''B001122334''), ''marketplace'' \<mapsto> PStr (u ''amazon''),
       ''confidence'' \<mapsto> PFloat 0.8],
      [''original_sku'' \<mapsto> PStr (u ''ab-1234''), ''marketplace'' \<mapsto> PStr (u ''etsy''),
       ''confidence'' \<mapsto> PFloat 0.5],
      [''original_sku'' \<mapsto> PStr (u ''x!''), ''marketplace'' \<mapsto> PStr (u ''amazon''),
       ''confidence'' \<mapsto> PFloat 0.6],
      [''original_sku'' \<mapsto> PNone, ''error'' \<mapsto> PStr (quoted (u ''sku'')),
       ''confidence'' \<mapsto> PFloat 0.0, ''mapping_method'' \<mapsto> PStr (u ''failed'')] ]"

section \<open>The verdicts of the validator\<close>

text \<open>
  A record is valid when its \<open>original_sku\<close> passes \<open>validate_sku\<close> for its
  \<open>marketplace\<close>.
\<close>

definition format_valid :: "unicode_db \<Rightarrow> pydict \<Rightarrow> bool" where
  "format_valid U m =
     (validate_sku U (dict_get m ''original_sku'') (dict_get m ''marketplace'') = Inr True)"

text \<open>The confidence of a record (0 when the key is absent) is below 0.6.\<close>

definition low_confidence :: "pydict \<Rightarrow> bool" where
  "low_confidence m =
     (below_06 (case m ''confidence'' of None \<Rightarrow> PInt 0 | Some c \<Rightarrow> c) = Inr True)"

section \<open>The invariants of a mapping result\<close>

text \<open>The confidence of a record is a float between 0 and 1.\<close>

definition confidence_in_range :: "pydict \<Rightarrow> bool" where
  "confidence_in_range d =
     (case d ''confidence'' of Some (PFloat c) \<Rightarrow> 0 \<le> c \<and> c \<le> 1 | _ \<Rightarrow> False)"

text \<open>The method of a record is one of the four names.\<close>

definition method_known :: "pydict \<Rightarrow> bool" where
  "method_known d =
     (case d ''mapping_method'' of
        Some (PStr m) \<Rightarrow>
          m = u ''automatic'' \<or> m = u ''ai_suggested'' \<or> m = u ''manual'' \<or> m = u ''failed''
      | _ \<Rightarrow> False)"

text \<open>
  The method agrees with the rest of the record: \<open>automatic\<close> comes with a confidence of
  at least 0.9 and a product id, \<open>manual\<close> with a confidence below 0.7.
\<close>

definition method_consistent :: "pydict \<Rightarrow> bool" where
  "method_consistent d =
     ((d ''mapping_method'' = Some (PStr (u ''automatic'')) \<longrightarrow>
         (case d ''confidence'' of Some (PFloat c) \<Rightarrow> 0.9 \<le> c | _ \<Rightarrow> False) \<and>
         (case d ''product_id'' of Some (PStr i) \<Rightarrow> True | _ \<Rightarrow> False)) \<and>
      (d ''mapping_method'' = Some (PStr (u ''manual'')) \<longrightarrow>
         (case d ''confidence'' of Some (PFloat c) \<Rightarrow> c < 0.7 | _ \<Rightarrow> False)))"

section \<open>Properties of the normalizer\<close>

lemma u_eq_iff: "u a = u b \<longleftrightarrow> a = b"
  unfolding u_def by (simp add: inj_map_eq_map inj_of_char)

lemma set_strip_where: "set (strip_where P s) \<subseteq> set s"
  unfolding strip_where_def by (auto dest!: set_dropWhileD)

lemma set_sub_spaces: "set (sub_spaces U s) \<subseteq> insert 45 (set s)"
proof (induction U s rule: sub_spaces.induct)
  case (1 U)
  show ?case by simp
next
  case (2 U c cs)
  show ?case
  proof (cases "is_space U c")
    case True
    have "set (dropWhile (is_space U) cs) \<subseteq> set cs"
      by (auto dest: set_dropWhileD)
    with 2(1) [OF True] True show ?thesis by auto
  next
    case False
    with 2(2) [OF False] show ?thesis by auto
  qed
qed

lemma set_drop_special: "set (drop_special U s) = {c \<in> set s. is_word U c \<or> c = 45}"
  by (auto simp: drop_special_def)

lemma clean_sku_str:
  "clean_sku U (PStr s) =
     Inr (py_upper U (drop_special U (sub_spaces U (py_strip_chars [34, 39] (py_strip U s)))))"
  by (cases s) (simp_all add: clean_sku_def py_upper_def drop_special_def py_strip_chars_def
      py_strip_def strip_where_def)

lemma upper_cp_ascii_word:
  assumes "c < 128" "is_word U c \<or> c = 45" "x \<in> set (upper_cp U c)"
  shows "ascii_upper x \<or> ascii_digit x \<or> x = 95 \<or> x = 45"
  using assms
  by (auto simp: upper_cp_def is_word_def ascii_upper_def ascii_digit_def ascii_lower_def
      split: if_splits)

lemma clean_sku_ascii_chars:
  assumes "ascii s" "clean_sku U (PStr s) = Inr t" "x \<in> set t"
  shows "ascii_upper x \<or> ascii_digit x \<or> x = 95 \<or> x = 45"
proof -
  let ?y = "drop_special U (sub_spaces U (py_strip_chars [34, 39] (py_strip U s)))"
  from assms(2) have t: "t = py_upper U ?y" by (simp add: clean_sku_str)
  with assms(3) obtain c where c: "c \<in> set ?y" "x \<in> set (upper_cp U c)"
    by (auto simp: py_upper_def)
  from c(1) have w: "is_word U c \<or> c = 45" by (simp add: set_drop_special)
  from c(1) have "c \<in> set (sub_spaces U (py_strip_chars [34, 39] (py_strip U s)))"
    by (simp add: set_drop_special)
  then have "c = 45 \<or> c \<in> set (py_strip_chars [34, 39] (py_strip U s))"
    using set_sub_spaces by fastforce
  then have "c = 45 \<or> c \<in> set (py_strip U s)"
    using set_strip_where [of "\<lambda>c. c \<in> set [34, 39]" "py_strip U s"]
    unfolding py_strip_chars_def by blast
  then have "c = 45 \<or> c \<in> set s"
    using set_strip_where [of "is_space U" s] unfolding py_strip_def by blast
  with assms(1) have lt: "c < 128" by (auto simp: ascii_def list_all_iff)
  from lt w c(2) show ?thesis by (rule upper_cp_ascii_word)
qed

lemma strip_where_id: "\<forall>c\<in>set t. \<not> P c \<Longrightarrow> strip_where P t = t"
proof -
  assume a: "\<forall>c\<in>set t. \<not> P c"
  have d: "\<And>xs. \<forall>c\<in>set xs. \<not> P c \<Longrightarrow> dropWhile P xs = xs"
    by (case_tac xs) auto
  from a have "dropWhile P t = t" by (rule d)
  moreover from a have "dropWhile P (rev t) = rev t" by (intro d) simp
  ultimately show ?thesis by (simp add: strip_where_def)
qed

lemma sub_spaces_id: "\<forall>c\<in>set t. \<not> is_space U c \<Longrightarrow> sub_spaces U t = t"
  by (induction t) auto

lemma py_upper_id: "\<forall>c\<in>set t. upper_cp U c = [c] \<Longrightarrow> py_upper U t = t"
  by (induction t) (auto simp: py_upper_def)

lemma clean_sku_fixed:
  assumes "\<forall>c\<in>set t. ascii_upper c \<or> ascii_digit c \<or> c = 95 \<or> c = 45"
  shows "clean_sku U (PStr t) = Inr t"
proof -
  have sp: "\<forall>c\<in>set t. \<not> is_space U c"
    using assms by (auto simp: is_space_def ascii_upper_def ascii_digit_def)
  have q: "\<forall>c\<in>set t. \<not> c \<in> set [34, 39]"
    using assms by (auto simp: ascii_upper_def ascii_digit_def)
  have w: "\<forall>c\<in>set t. is_word U c \<or> c = 45"
    using assms by (auto simp: is_word_def ascii_upper_def ascii_digit_def)
  have up: "\<forall>c\<in>set t. upper_cp U c = [c]"
    using assms by (auto simp: upper_cp_def ascii_lower_def ascii_upper_def ascii_digit_def)
  have 1: "py_strip U t = t" unfolding py_strip_def using sp by (rule strip_where_id)
  have 2: "py_strip_chars [34, 39] t = t" unfolding py_strip_chars_def using q by (rule strip_where_id)
  have 3: "sub_spaces U t = t" using sp by (rule sub_spaces_id)
  have 4: "drop_special U t = t" unfolding drop_special_def using w by (simp add: filter_id_conv)
  have 5: "py_upper U t = t" using up by (rule py_upper_id)
  show ?thesis by (simp add: clean_sku_str 1 2 3 4 5)
qed




text \<open>
  C9. On an ASCII string the normalizer is idempotent: normalizing its output gives the
  output again.
\<close>

theorem clean_sku_idempotent_ascii:
  assumes "ascii x"
  shows "\<exists>t. clean_sku U (PStr x) = Inr t \<and> clean_sku U (PStr t) = Inr t"
proof -
  obtain t where t: "clean_sku U (PStr x) = Inr t" by (simp add: clean_sku_str)
  then have "\<forall>c\<in>set t. ascii_upper c \<or> ascii_digit c \<or> c = 95 \<or> c = 45"
    using assms clean_sku_ascii_chars by blast
  then have "clean_sku U (PStr t) = Inr t" by (rule clean_sku_fixed)
  with t show ?thesis by blast
qed

theorem clean_sku_idempotent_ascii_witness:
  "ascii (u '' 'x y'z '') \<and>
   clean_sku unicode_fragment (PStr (u '' 'x y'z '')) = Inr (u ''X-YZ'') \<and>
   clean_sku unicode_fragment (PStr (u ''X-YZ'')) = Inr (u ''X-YZ'')"
proof -
  have a: "ascii (u '' 'x y'z '')" by code_simp
  have e: "clean_sku unicode_fragment (PStr (u '' 'x y'z '')) = Inr (u ''X-YZ'')"
    by code_simp
  from clean_sku_idempotent_ascii [OF a, of unicode_fragment] e a show ?thesis by auto
qed

text \<open>
  Outside ASCII it is not: the upper case of U+01F0 is \<open>J\<close> followed by the combining
  caron U+030C, which the second pass removes as a special character.
\<close>

theorem clean_sku_not_idempotent_example:
  "clean_sku unicode_fragment (PStr [0x1F0]) = Inr [0x4A, 0x30C] \<and>
   clean_sku unicode_fragment (PStr [0x4A, 0x30C]) = Inr [0x4A]"
  by code_simp

section \<open>Properties of the synthesizer\<close>

lemma hash_step_mod: "hash_step h c = (h * 31 + int c) mod 2 ^ 32"
proof -
  have m: "(0xFFFFFFFF :: int) = mask 32" by (simp add: mask_eq_exp_minus_1)
  have "hash_step h c = take_bit 32 (push_bit 5 h - h + int c)"
    unfolding hash_step_def Let_def m by (simp add: take_bit_eq_mask)
  also have "push_bit 5 h - h + int c = h * 31 + int c"
    by (simp add: push_bit_eq_mult)
  finally show ?thesis by (simp add: take_bit_eq_mod)
qed

lemma hash_loop_rolling: "hash_loop t = rolling_hash t"
proof -
  have "hash_step = (\<lambda>hash char. (hash * 31 + int char) mod 2 ^ 32)"
    by (intro ext) (rule hash_step_mod)
  then show ?thesis by (simp add: hash_loop_def rolling_hash_def)
qed

lemma rolling_hash_range: "0 \<le> rolling_hash t \<and> rolling_hash t < 2 ^ 32"
  by (induction t rule: rev_induct) (simp_all add: rolling_hash_def)

lemma hex_digit_char:
  "0 \<le> d \<Longrightarrow> d < 16 \<Longrightarrow> ascii_digit (hex_digit d) \<or> (65 \<le> hex_digit d \<and> hex_digit d \<le> 70)"
  by (auto simp: hex_digit_def ascii_digit_def)

lemma format_X_small: "n < 16 \<Longrightarrow> format_X n = [hex_digit n]"
  by (subst format_X.simps) simp

lemma format_X_big: "\<not> n < 16 \<Longrightarrow> format_X n = format_X (n div 16) @ [hex_digit (n mod 16)]"
  by (subst format_X.simps) simp

lemma format_X_chars:
  "0 \<le> n \<Longrightarrow> list_all (\<lambda>c. ascii_digit c \<or> (65 \<le> c \<and> c \<le> 70)) (format_X n)"
proof (induction n rule: format_X.induct)
  case (1 n)
  show ?case
  proof (cases "n < 16")
    case True
    with 1(2) show ?thesis
      by (simp add: format_X_small hex_digit_char)
  next
    case False
    then have "0 \<le> n div 16" by simp
    with 1(1) [OF False]
    have "list_all (\<lambda>c. ascii_digit c \<or> (65 \<le> c \<and> c \<le> 70)) (format_X (n div 16))" .
    moreover have "ascii_digit (hex_digit (n mod 16)) \<or>
        (65 \<le> hex_digit (n mod 16) \<and> hex_digit (n mod 16) \<le> 70)"
      by (rule hex_digit_char) simp_all
    ultimately show ?thesis using False
      by (simp add: format_X_big)
  qed
qed

lemma format_X_nonempty: "format_X n \<noteq> []"
  by (cases "n < 16") (simp_all add: format_X_small format_X_big)

lemma div16_le: "(m \<le> n div 16) = (16 * m \<le> (n::int))"
  by presburger

lemma format_X_length:
  "0 \<le> n \<Longrightarrow> 0 < k \<Longrightarrow> (k < length (format_X n)) = (16 ^ k \<le> n)"
proof (induction n arbitrary: k rule: format_X.induct)
  case (1 n)
  from 1(3) obtain j where k: "k = Suc j" by (cases k) auto
  show ?case
  proof (cases "n < 16")
    case True
    have "(1::int) \<le> 16 ^ j" by simp
    with True have "\<not> 16 * 16 ^ j \<le> n" by linarith
    with True k show ?thesis by (simp add: format_X_small)
  next
    case False
    then have nn: "0 \<le> n div 16" by simp
    have l: "length (format_X n) = Suc (length (format_X (n div 16)))"
      using False by (simp add: format_X_big)
    have d: "((16::int) ^ j \<le> n div 16) = (16 ^ Suc j \<le> n)"
      by (simp add: div16_le)
    show ?thesis
    proof (cases "j = 0")
      case True
      with l k False show ?thesis by (simp add: format_X_nonempty)
    next
      case j: False
      then have "(j < length (format_X (n div 16))) = (16 ^ j \<le> n div 16)"
        using 1(1) [OF False nn] by simp
      with d l k show ?thesis by simp
    qed
  qed
qed

lemma simple_hash_rolling: "simple_hash t = take 6 (format_X (rolling_hash t))"
  using rolling_hash_range [of t] by (simp add: simple_hash_def hash_loop_rolling)

text \<open>
  C4. Without a catalog match the id is \<open>WMS-\<close>, the first three characters of the
  upper-cased marketplace tag, a hyphen, and the hash: the first six digits at most of the
  upper-case hexadecimal form of the rolling hash (\<open>hash * 31 + char_code\<close> wrapped to 32
  bits). The hexadecimal form is not padded, so the hash has between one and six digits,
  and six exactly when the hash value is at least \<open>16 ^ 5\<close>. The id is a function of the
  transformed SKU and the marketplace.
\<close>

theorem generate_msku_synthesized:
  "generate_msku U mapped_sku marketplace None =
     u ''WMS-'' @ take 3 (py_upper U marketplace) @ u ''-'' @ simple_hash mapped_sku \<and>
   simple_hash mapped_sku = take 6 (format_X (rolling_hash mapped_sku)) \<and>
   1 \<le> length (simple_hash mapped_sku) \<and> length (simple_hash mapped_sku) \<le> 6 \<and>
   list_all (\<lambda>c. ascii_digit c \<or> (65 \<le> c \<and> c \<le> 70)) (simple_hash mapped_sku) \<and>
   (length (simple_hash mapped_sku) = 6) = (16 ^ 5 \<le> rolling_hash mapped_sku)"
proof -
  let ?h = "rolling_hash mapped_sku"
  have nn: "0 \<le> ?h" using rolling_hash_range [of mapped_sku] by simp
  have 1: "generate_msku U mapped_sku marketplace None =
     u ''WMS-'' @ take 3 (py_upper U marketplace) @ u ''-'' @ simple_hash mapped_sku"
    by (simp add: generate_msku_def)
  have ne: "1 \<le> length (format_X ?h)"
    using format_X_nonempty [of ?h] by (cases "format_X ?h") simp_all
  have 3: "1 \<le> length (simple_hash mapped_sku) \<and> length (simple_hash mapped_sku) \<le> 6"
    using ne by (simp add: simple_hash_rolling)
  have "list_all (\<lambda>c. ascii_digit c \<or> (65 \<le> c \<and> c \<le> 70)) (format_X ?h)"
    using nn by (rule format_X_chars)
  then have 4: "list_all (\<lambda>c. ascii_digit c \<or> (65 \<le> c \<and> c \<le> 70)) (simple_hash mapped_sku)"
    unfolding simple_hash_rolling list_all_iff by (meson in_set_takeD)
  have "(5 < length (format_X ?h)) = (16 ^ 5 \<le> ?h)"
    using nn by (rule format_X_length) simp
  then have 5: "(length (simple_hash mapped_sku) = 6) = (16 ^ 5 \<le> ?h)"
    unfolding simple_hash_rolling by (simp add: min_def) linarith
  from 1 simple_hash_rolling 3 4 5 show ?thesis by blast
qed

text \<open>The SKU \<open>A\<close> has hash value 65: the id ends in the two digits \<open>41\<close>, not in six.\<close>

theorem generate_msku_short_hash:
  "generate_msku unicode_fragment (u ''A'') (u ''amazon'') None = u ''WMS-AMA-41'' \<and>
   simple_hash (u ''A'') = u ''41''"
  by code_simp

section \<open>Properties of the scorer and the orchestrator\<close>

lemma method_names_distinct:
  "u ''automatic'' \<noteq> u ''ai_suggested''" "u ''automatic'' \<noteq> u ''manual''"
  "u ''automatic'' \<noteq> u ''failed''" "u ''ai_suggested'' \<noteq> u ''manual''"
  "u ''ai_suggested'' \<noteq> u ''failed''" "u ''manual'' \<noteq> u ''failed''"
  by (simp_all add: u_eq_iff)

lemma validate_sku_str:
  assumes "m = PNone \<or> (\<exists>t. m = PStr t)"
  shows "\<exists>b. validate_sku U (PStr s) m = Inr b"
  using assms
  by (auto simp: validate_sku_def pattern_for_def Let_def split: option.splits)

lemma calculate_confidence_str:
  "\<exists>c. calculate_confidence U (PStr s) mapped existing mp = Inr c"
proof -
  obtain b where "validate_sku U (PStr s) (PStr mp) = Inr b"
    using validate_sku_str by blast
  then show ?thesis by (simp add: calculate_confidence_def Let_def)
qed

lemma calculate_confidence_range:
  assumes "calculate_confidence U v mapped existing mp = Inr c"
  shows "0.5 \<le> c \<and> c \<le> 1"
proof -
  from assms obtain b where b: "validate_sku U v (PStr mp) = Inr b"
    by (auto simp: calculate_confidence_def split: sum.splits)
  from assms show ?thesis
    unfolding calculate_confidence_def b
    by (auto simp: Let_def min_def split: option.splits if_splits pyval.splits)
qed

lemma calculate_confidence_exact:
  assumes "product_sku p = mapped"
  shows "calculate_confidence U (PStr s) mapped (Some p) mp = Inr 1"
proof -
  obtain b where "validate_sku U (PStr s) (PStr mp) = Inr b"
    using validate_sku_str by blast
  with assms show ?thesis
    by (simp add: calculate_confidence_def Let_def min_def)
qed

lemma determine_mapping_method_cases:
  "determine_mapping_method c e \<in> {u ''automatic'', u ''ai_suggested'', u ''manual''}"
  by (simp add: determine_mapping_method_def)

lemma determine_mapping_method_automatic:
  "(determine_mapping_method c e = u ''automatic'') = (e \<noteq> None \<and> 0.9 \<le> c)"
  by (simp add: determine_mapping_method_def method_names_distinct method_names_distinct [symmetric])

lemma determine_mapping_method_manual:
  "(determine_mapping_method c e = u ''manual'') = (c < 0.7)"
  by (auto simp: determine_mapping_method_def method_names_distinct method_names_distinct [symmetric])

lemma map_sku_Inr:
  assumes "map_sku U fz v mp db = Inr d"
  obtains cleaned existing c where
    "clean_sku U v = Inr cleaned"
    "find_existing_product fz (apply_marketplace_rules U cleaned mp) mp db = Inr existing"
    "calculate_confidence U v (apply_marketplace_rules U cleaned mp) existing mp = Inr c"
    "d ''confidence'' = Some (PFloat c)"
    "d ''mapping_method'' = Some (PStr (determine_mapping_method c existing))"
    "d ''product_id'' = Some (case existing of Some p \<Rightarrow> PStr (product_id p) | None \<Rightarrow> PNone)"
    "d ''mapped_sku'' = Some (PStr (apply_marketplace_rules U cleaned mp))"
    "d ''original_sku'' = Some v"
  using assms unfolding map_sku_def Let_def
  by (auto split: sum.splits)

lemma map_sku_run:
  assumes "clean_sku U v = Inr cleaned"
    and "find_existing_product fz (apply_marketplace_rules U cleaned mp) mp db = Inr existing"
    and "calculate_confidence U v (apply_marketplace_rules U cleaned mp) existing mp = Inr c"
  shows "\<exists>d. map_sku U fz v mp db = Inr d \<and>
    d ''confidence'' = Some (PFloat c) \<and>
    d ''mapping_method'' = Some (PStr (determine_mapping_method c existing))"
  using assms unfolding map_sku_def Let_def by simp




text \<open>
  C2. When the lookup finds a product whose \<open>sku\<close> is the transformed SKU itself, the
  mapping is returned with confidence exactly 1.0 and method \<open>automatic\<close>, whatever the
  other signals of the scorer are.
\<close>

theorem exact_match_is_automatic:
  assumes "clean_sku U (PStr s) = Inr cleaned"
    and "find_existing_product fz (apply_marketplace_rules U cleaned mp) mp db = Inr (Some p)"
    and "product_sku p = apply_marketplace_rules U cleaned mp"
  shows "\<exists>d. map_sku U fz (PStr s) mp db = Inr d \<and>
           d ''confidence'' = Some (PFloat 1.0) \<and>
           d ''mapping_method'' = Some (PStr (u ''automatic''))"
proof -
  have c: "calculate_confidence U (PStr s) (apply_marketplace_rules U cleaned mp) (Some p) mp = Inr 1"
    using assms(3) by (rule calculate_confidence_exact)
  have "determine_mapping_method 1 (Some p) = u ''automatic''"
    by (simp add: determine_mapping_method_def)
  with map_sku_run [OF assms(1) assms(2) c] show ?thesis by auto
qed

theorem exact_match_is_automatic_witness:
  "clean_sku unicode_fragment (PStr (u ''b001122334'')) = Inr (u ''B001122334'') \<and>
   find_existing_product extract_equal
     (apply_marketplace_rules unicode_fragment (u ''B001122334'') (u ''amazon''))
     (u ''amazon'') small_catalog = Inr (Some widget) \<and>
   product_sku widget = apply_marketplace_rules unicode_fragment (u ''B001122334'') (u ''amazon'') \<and>
   \<not> isl (map_sku unicode_fragment extract_equal (PStr (u ''b001122334'')) (u ''amazon'')
            small_catalog) \<and>
   projr (map_sku unicode_fragment extract_equal (PStr (u ''b001122334'')) (u ''amazon'')
            small_catalog) ''confidence'' = Some (PFloat 1.0) \<and>
   projr (map_sku unicode_fragment extract_equal (PStr (u ''b001122334'')) (u ''amazon'')
            small_catalog) ''mapping_method'' = Some (PStr (u ''automatic''))"
proof -
  have a: "clean_sku unicode_fragment (PStr (u ''b001122334'')) = Inr (u ''B001122334'')"
    by code_simp
  have b: "find_existing_product extract_equal
     (apply_marketplace_rules unicode_fragment (u ''B001122334'') (u ''amazon''))
     (u ''amazon'') small_catalog = Inr (Some widget)" by code_simp
  have c: "product_sku widget =
     apply_marketplace_rules unicode_fragment (u ''B001122334'') (u ''amazon'')" by code_simp
  from exact_match_is_automatic [OF a b c] a b c show ?thesis by auto
qed

section \<open>Properties of the batch\<close>

lemma foldl_append_map: "foldl (\<lambda>results x. results @ [f x]) acc xs = acc @ map f xs"
  by (induction xs arbitrary: acc) simp_all

lemma batch_map_skus_map:
  "batch_map_skus U fz items mp db = map (batch_item U fz mp db) items"
  by (simp add: batch_map_skus_def foldl_append_map)

lemma batch_item_failure:
  assumes "map_item U fz mp db item = Inl e"
  shows "batch_item U fz mp db item ''mapping_method'' = Some (PStr (u ''failed''))"
    "batch_item U fz mp db item ''confidence'' = Some (PFloat 0)"
    "batch_item U fz mp db item ''error'' = Some (PStr (exc_str e))"
    "batch_item U fz mp db item ''original_sku'' = Some (dict_get item ''sku'')"
  using assms by (simp_all add: batch_item_def)

lemma batch_item_success:
  assumes "map_item U fz mp db item = Inr d"
  shows "batch_item U fz mp db item = d ++ item"
  using assms by (simp add: batch_item_def)

lemma map_sku_no_len:
  assumes "v = PNone \<or> (\<exists>i. v = PInt i) \<or> (\<exists>r. v = PFloat r)"
  shows "isl (map_sku U fz v mp db)"
proof (cases "clean_sku U v")
  case (Inl e)
  then show ?thesis by (simp add: map_sku_def)
next
  case (Inr cleaned)
  have "calculate_confidence U v m ex mp \<noteq> Inr c" for m ex c
    using assms by (auto simp: calculate_confidence_def Let_def split: sum.splits)
  then show ?thesis
    using Inr by (simp add: map_sku_def Let_def split: sum.splits)
qed

lemma map_item_no_sku:
  assumes "item ''sku'' = None \<or> item ''sku'' = Some PNone \<or>
           (\<exists>i. item ''sku'' = Some (PInt i)) \<or> (\<exists>r. item ''sku'' = Some (PFloat r))"
  shows "isl (map_item U fz mp db item)"
proof (cases "item ''sku''")
  case None
  then show ?thesis by (simp add: map_item_def)
next
  case (Some v)
  with assms have "v = PNone \<or> (\<exists>i. v = PInt i) \<or> (\<exists>r. v = PFloat r)" by auto
  then have "isl (map_sku U fz v mp db)" by (rule map_sku_no_len)
  with Some show ?thesis by (simp add: map_item_def)
qed

lemma map_item_str:
  assumes "item ''sku'' = Some (PStr s)"
    and "clean_sku U (PStr s) = Inr cleaned"
    and "find_existing_product fz (apply_marketplace_rules U cleaned mp) mp db = Inr ex"
  shows "\<not> isl (map_item U fz mp db item)"
proof -
  obtain c where
    c: "calculate_confidence U (PStr s) (apply_marketplace_rules U cleaned mp) ex mp = Inr c"
    using calculate_confidence_str by blast
  from map_sku_run [OF assms(2) assms(3) c] assms(1) show ?thesis
    by (auto simp: map_item_def)
qed

lemma batch_loop_dicts:
  "batch_loop U fz mp db (map Dict items) results =
     Inr (results @ map (batch_item U fz mp db) items)"
  by (induction items arbitrary: results) simp_all

lemma batch_map_skus_rows_dicts:
  "batch_map_skus_rows U fz (map Dict items) mp db = Inr (batch_map_skus U fz items mp db)"
  by (simp add: batch_map_skus_rows_def batch_loop_dicts batch_map_skus_map)

lemma map_sku_invariant:
  assumes "map_sku U fz v mp db = Inr d"
  shows "confidence_in_range d \<and> method_known d"
proof -
  from assms obtain cleaned existing c where
    cc: "calculate_confidence U v (apply_marketplace_rules U cleaned mp) existing mp = Inr c" and
    c: "d ''confidence'' = Some (PFloat c)" and
    m: "d ''mapping_method'' = Some (PStr (determine_mapping_method c existing))"
    by (rule map_sku_Inr)
  from cc have "0.5 \<le> c \<and> c \<le> 1" by (rule calculate_confidence_range)
  then have "confidence_in_range d" by (simp add: confidence_in_range_def c)
  moreover have "method_known d"
    using determine_mapping_method_cases [of c existing] by (auto simp: method_known_def m)
  ultimately show ?thesis ..
qed

lemma map_item_Inr:
  assumes "map_item U fz mp db item = Inr d"
  obtains v where "item ''sku'' = Some v" "map_sku U fz v mp db = Inr d"
  using assms by (auto simp: map_item_def split: option.splits)

lemma batch_item_invariant:
  "(isl (map_item U fz mp db item) \<or> item ''confidence'' = None
      \<longrightarrow> confidence_in_range (batch_item U fz mp db item)) \<and>
   (isl (map_item U fz mp db item) \<or> item ''mapping_method'' = None
      \<longrightarrow> method_known (batch_item U fz mp db item))"
proof (cases "map_item U fz mp db item")
  case (Inl e)
  then show ?thesis
    by (simp add: batch_item_def confidence_in_range_def method_known_def)
next
  case (Inr d)
  then obtain v where "map_sku U fz v mp db = Inr d" by (rule map_item_Inr)
  then have "confidence_in_range d \<and> method_known d" by (rule map_sku_invariant)
  then show ?thesis
    using Inr
    by (auto simp: batch_item_def confidence_in_range_def method_known_def map_add_def)
qed

lemma map_sku_consistent:
  assumes "map_sku U fz v mp db = Inr d"
  shows "method_consistent d"
proof -
  from assms obtain existing c where
    c: "d ''confidence'' = Some (PFloat c)" and
    m: "d ''mapping_method'' = Some (PStr (determine_mapping_method c existing))" and
    i: "d ''product_id'' = Some (case existing of Some p \<Rightarrow> PStr (product_id p) | None \<Rightarrow> PNone)"
    by (rule map_sku_Inr)
  show ?thesis
    unfolding method_consistent_def c m i
    by (auto simp: determine_mapping_method_automatic determine_mapping_method_manual)
qed

lemma batch_item_consistent:
  assumes "isl (map_item U fz mp db item) \<or>
           (item ''mapping_method'' = None \<and> item ''confidence'' = None \<and>
            item ''product_id'' = None)"
  shows "method_consistent (batch_item U fz mp db item)"
proof (cases "map_item U fz mp db item")
  case (Inl e)
  then show ?thesis
    by (simp add: batch_item_def method_consistent_def method_names_distinct [symmetric])
next
  case (Inr d)
  then obtain v where "map_sku U fz v mp db = Inr d" by (rule map_item_Inr)
  then have d: "method_consistent d" by (rule map_sku_consistent)
  from Inr assms have "item ''mapping_method'' = None \<and> item ''confidence'' = None \<and>
      item ''product_id'' = None" by simp
  then have "method_consistent (d ++ item) = method_consistent d"
    by (simp add: method_consistent_def map_add_def)
  with d Inr show ?thesis by (simp add: batch_item_def)
qed

text \<open>
  C3. In every result of \<open>map_sku\<close>, the method \<open>automatic\<close> comes with a confidence of
  at least 0.9 and a product id, and the method \<open>manual\<close> with a confidence below 0.7.
  The same holds of the record of a row of a batch whose mapping raised, and of the
  record of a row that carries none of the keys \<open>mapping_method\<close>, \<open>confidence\<close> and
  \<open>product_id\<close>.
\<close>

theorem method_thresholds:
  "(\<forall>d. map_sku U fz v mp db = Inr d \<longrightarrow> method_consistent d) \<and>
   (\<forall>k<length items.
      isl (map_item U fz mp db (items ! k)) \<or>
      ((items ! k) ''mapping_method'' = None \<and> (items ! k) ''confidence'' = None \<and>
       (items ! k) ''product_id'' = None)
      \<longrightarrow> method_consistent (batch_map_skus U fz items mp db ! k))"
proof (intro conjI allI impI)
  fix d
  assume "map_sku U fz v mp db = Inr d"
  then show "method_consistent d" by (rule map_sku_consistent)
next
  fix k
  assume k: "k < length items"
    and "isl (map_item U fz mp db (items ! k)) \<or>
      ((items ! k) ''mapping_method'' = None \<and> (items ! k) ''confidence'' = None \<and>
       (items ! k) ''product_id'' = None)"
  then have "method_consistent (batch_item U fz mp db (items ! k))"
    by (intro batch_item_consistent)
  with k show "method_consistent (batch_map_skus U fz items mp db ! k)"
    by (simp add: batch_map_skus_map)
qed

theorem method_thresholds_witness:
  "map_sku unicode_fragment extract_equal (PStr (u ''b001122334'')) (u ''amazon'') small_catalog =
     Inr (projr (map_sku unicode_fragment extract_equal (PStr (u ''b001122334'')) (u ''amazon'')
            small_catalog)) \<and>
   projr (map_sku unicode_fragment extract_equal (PStr (u ''b001122334'')) (u ''amazon'')
            small_catalog) ''mapping_method'' = Some (PStr (u ''automatic'')) \<and>
   projr (map_sku unicode_fragment extract_equal (PStr (u ''b001122334'')) (u ''amazon'')
            small_catalog) ''confidence'' = Some (PFloat 1.0) \<and>
   projr (map_sku unicode_fragment extract_equal (PStr (u ''b001122334'')) (u ''amazon'')
            small_catalog) ''product_id'' = Some (PStr (u ''p-1'')) \<and>
   map_sku unicode_fragment extract_equal (PStr (u ''x!'')) (u ''etsy'') empty_catalog =
     Inr (projr (map_sku unicode_fragment extract_equal (PStr (u ''x!'')) (u ''etsy'')
            empty_catalog)) \<and>
   projr (map_sku unicode_fragment extract_equal (PStr (u ''x!'')) (u ''etsy'') empty_catalog)
     ''mapping_method'' = Some (PStr (u ''manual'')) \<and>
   projr (map_sku unicode_fragment extract_equal (PStr (u ''x!'')) (u ''etsy'') empty_catalog)
     ''confidence'' = Some (PFloat 0.5) \<and>
   (0::nat) < length example_rows \<and>
   (example_rows ! 0) ''mapping_method'' = None \<and> (example_rows ! 0) ''confidence'' = None \<and>
   (example_rows ! 0) ''product_id'' = None \<and>
   (batch_map_skus unicode_fragment extract_equal example_rows (u ''amazon'') small_catalog ! 0)
     ''mapping_method'' = Some (PStr (u ''automatic'')) \<and>
   (batch_map_skus unicode_fragment extract_equal example_rows (u ''amazon'') small_catalog ! 0)
     ''confidence'' = Some (PFloat 1.0) \<and>
   (batch_map_skus unicode_fragment extract_equal example_rows (u ''amazon'') small_catalog ! 0)
     ''product_id'' = Some (PStr (u ''p-1''))"
proof -
  let ?a = "map_sku unicode_fragment extract_equal (PStr (u ''b001122334'')) (u ''amazon'')
            small_catalog"
  let ?b = "map_sku unicode_fragment extract_equal (PStr (u ''x!'')) (u ''etsy'') empty_catalog"
  let ?o = "batch_map_skus unicode_fragment extract_equal example_rows (u ''amazon'')
            small_catalog ! 0"
  have a: "\<not> isl ?a \<and> projr ?a ''mapping_method'' = Some (PStr (u ''automatic''))"
    by code_simp
  have b: "\<not> isl ?b \<and> projr ?b ''mapping_method'' = Some (PStr (u ''manual''))"
    by code_simp
  from a have ea: "?a = Inr (projr ?a)" by (cases ?a) simp_all
  from b have eb: "?b = Inr (projr ?b)" by (cases ?b) simp_all
  have l: "(0::nat) < length example_rows" by (simp add: example_rows_def)
  have n: "(example_rows ! 0) ''mapping_method'' = None \<and>
    (example_rows ! 0) ''confidence'' = None \<and> (example_rows ! 0) ''product_id'' = None"
    by (simp add: example_rows_def)
  have o: "?o ''mapping_method'' = Some (PStr (u ''automatic''))" by code_simp
  have va: "projr ?a ''confidence'' = Some (PFloat 1.0) \<and>
      projr ?a ''product_id'' = Some (PStr (u ''p-1''))" by code_simp
  have vb: "projr ?b ''confidence'' = Some (PFloat 0.5)" by code_simp
  have vo: "?o ''confidence'' = Some (PFloat 1.0) \<and> ?o ''product_id'' = Some (PStr (u ''p-1''))"
    by code_simp
  from method_thresholds [of unicode_fragment extract_equal "PStr (u ''b001122334'')"
      "u ''amazon''" small_catalog example_rows] ea l n
  have "method_consistent (projr ?a) \<and> method_consistent ?o" by metis
  moreover from method_thresholds [of unicode_fragment extract_equal "PStr (u ''x!'')"
      "u ''etsy''" empty_catalog "[]"] eb
  have "method_consistent (projr ?b)" by metis
  ultimately show ?thesis using a b ea eb l n o va vb vo by simp
qed

text \<open>
  A row that carries the method \<open>automatic\<close> keeps it in its record, next to the computed
  confidence 0.6 and the product id \<open>None\<close> of a SKU without a match.
\<close>

theorem batch_method_overridden:
  "(batch_map_skus unicode_fragment extract_equal
      [ [''sku'' \<mapsto> PStr (u ''x''), ''mapping_method'' \<mapsto> PStr (u ''automatic'')] ]
      (u ''amazon'') empty_catalog ! 0) ''mapping_method'' = Some (PStr (u ''automatic'')) \<and>
   (batch_map_skus unicode_fragment extract_equal
      [ [''sku'' \<mapsto> PStr (u ''x''), ''mapping_method'' \<mapsto> PStr (u ''automatic'')] ]
      (u ''amazon'') empty_catalog ! 0) ''confidence'' = Some (PFloat 0.6) \<and>
   (batch_map_skus unicode_fragment extract_equal
      [ [''sku'' \<mapsto> PStr (u ''x''), ''mapping_method'' \<mapsto> PStr (u ''automatic'')] ]
      (u ''amazon'') empty_catalog ! 0) ''product_id'' = Some PNone \<and>
   \<not> method_consistent (batch_map_skus unicode_fragment extract_equal
      [ [''sku'' \<mapsto> PStr (u ''x''), ''mapping_method'' \<mapsto> PStr (u ''automatic'')] ]
      (u ''amazon'') empty_catalog ! 0)"
  by code_simp

text \<open>
  C5. On rows that are dictionaries, \<open>batch_map_skus\<close> does not raise: a batch of N rows
  gives N records, in the order of the rows. The record of row k is the one that a
  batch of row k alone gives, so no other row affects it. A row without the key \<open>sku\<close>,
  or whose SKU is \<open>None\<close> or a number, raises in the mapping; a row whose SKU is a
  string, also an empty or a blank one, does not raise when the lookup returns. A row
  whose mapping raises gets the record of the handler: method \<open>failed\<close>, confidence 0.0,
  the text of the exception under \<open>error\<close>, and the SKU of the row (or \<open>None\<close>) under
  \<open>original_sku\<close>. A row whose mapping returns gets the mapping updated with the row.
\<close>

theorem batch_map_skus_isolation:
  "batch_map_skus_rows U fz (map Dict items) mp db = Inr (batch_map_skus U fz items mp db) \<and>
   length (batch_map_skus U fz items mp db) = length items \<and>
   (\<forall>k<length items.
      batch_map_skus_rows U fz [Dict (items ! k)] mp db =
        Inr [batch_map_skus U fz items mp db ! k] \<and>
      ((items ! k) ''sku'' = None \<or> (items ! k) ''sku'' = Some PNone \<or>
       (\<exists>i. (items ! k) ''sku'' = Some (PInt i)) \<or> (\<exists>r. (items ! k) ''sku'' = Some (PFloat r))
         \<longrightarrow> isl (map_item U fz mp db (items ! k))) \<and>
      (\<forall>s cleaned ex.
         (items ! k) ''sku'' = Some (PStr s) \<and> clean_sku U (PStr s) = Inr cleaned \<and>
         find_existing_product fz (apply_marketplace_rules U cleaned mp) mp db = Inr ex
         \<longrightarrow> \<not> isl (map_item U fz mp db (items ! k))) \<and>
      (\<forall>e. map_item U fz mp db (items ! k) = Inl e \<longrightarrow>
         (batch_map_skus U fz items mp db ! k) ''mapping_method'' = Some (PStr (u ''failed'')) \<and>
         (batch_map_skus U fz items mp db ! k) ''confidence'' = Some (PFloat 0.0) \<and>
         (batch_map_skus U fz items mp db ! k) ''error'' = Some (PStr (exc_str e)) \<and>
         (batch_map_skus U fz items mp db ! k) ''original_sku'' =
            Some (dict_get (items ! k) ''sku'')) \<and>
      (\<forall>d. map_item U fz mp db (items ! k) = Inr d \<longrightarrow>
         batch_map_skus U fz items mp db ! k = d ++ (items ! k)))"
proof (intro conjI allI impI)
  show "batch_map_skus_rows U fz (map Dict items) mp db = Inr (batch_map_skus U fz items mp db)"
    by (rule batch_map_skus_rows_dicts)
  show "length (batch_map_skus U fz items mp db) = length items"
    by (simp add: batch_map_skus_map)
next
  fix k
  assume k: "k < length items"
  then have out: "batch_map_skus U fz items mp db ! k = batch_item U fz mp db (items ! k)"
    by (simp add: batch_map_skus_map)
  show "batch_map_skus_rows U fz [Dict (items ! k)] mp db =
      Inr [batch_map_skus U fz items mp db ! k]"
    unfolding out using batch_map_skus_rows_dicts [of U fz "[items ! k]" mp db]
    by (simp add: batch_map_skus_map)
  show "isl (map_item U fz mp db (items ! k))"
    if "(items ! k) ''sku'' = None \<or> (items ! k) ''sku'' = Some PNone \<or>
       (\<exists>i. (items ! k) ''sku'' = Some (PInt i)) \<or> (\<exists>r. (items ! k) ''sku'' = Some (PFloat r))"
    using that by (rule map_item_no_sku)
  show "\<not> isl (map_item U fz mp db (items ! k))"
    if "(items ! k) ''sku'' = Some (PStr s) \<and> clean_sku U (PStr s) = Inr cleaned \<and>
         find_existing_product fz (apply_marketplace_rules U cleaned mp) mp db = Inr ex"
    for s cleaned ex
    using that map_item_str by blast
  show "batch_map_skus U fz items mp db ! k = d ++ (items ! k)"
    if "map_item U fz mp db (items ! k) = Inr d" for d
    using that by (simp add: out batch_item_success)
  fix e
  assume e: "map_item U fz mp db (items ! k) = Inl e"
  show "(batch_map_skus U fz items mp db ! k) ''mapping_method'' = Some (PStr (u ''failed''))"
    by (simp add: out batch_item_failure [OF e])
  show "(batch_map_skus U fz items mp db ! k) ''confidence'' = Some (PFloat 0.0)"
    by (simp add: out batch_item_failure [OF e])
  show "(batch_map_skus U fz items mp db ! k) ''error'' = Some (PStr (exc_str e))"
    by (simp add: out batch_item_failure [OF e])
  show "(batch_map_skus U fz items mp db ! k) ''original_sku'' =
      Some (dict_get (items ! k) ''sku'')"
    by (simp add: out batch_item_failure [OF e])
qed

theorem batch_map_skus_isolation_witness:
  "\<not> isl (batch_map_skus_rows unicode_fragment extract_equal (map Dict example_rows)
            (u ''amazon'') small_catalog) \<and>
   length (projr (batch_map_skus_rows unicode_fragment extract_equal (map Dict example_rows)
            (u ''amazon'') small_catalog)) = 4 \<and>
   (example_rows ! 1) ''sku'' = None \<and>
   (batch_map_skus unicode_fragment extract_equal example_rows (u ''amazon'') small_catalog ! 1)
     ''mapping_method'' = Some (PStr (u ''failed'')) \<and>
   (batch_map_skus unicode_fragment extract_equal example_rows (u ''amazon'') small_catalog ! 1)
     ''confidence'' = Some (PFloat 0.0) \<and>
   (batch_map_skus unicode_fragment extract_equal example_rows (u ''amazon'') small_catalog ! 1)
     ''error'' = Some (PStr (quoted (u ''sku''))) \<and>
   (example_rows ! 2) ''sku'' = Some PNone \<and>
   isl (map_item unicode_fragment extract_equal (u ''amazon'') small_catalog (example_rows ! 2)) \<and>
   (example_rows ! 0) ''sku'' = Some (PStr (u ''b001122334'')) \<and>
   clean_sku unicode_fragment (PStr (u ''b001122334'')) = Inr (u ''B001122334'') \<and>
   find_existing_product extract_equal
     (apply_marketplace_rules unicode_fragment (u ''B001122334'') (u ''amazon''))
     (u ''amazon'') small_catalog = Inr (Some widget) \<and>
   \<not> isl (map_item unicode_fragment extract_equal (u ''amazon'') small_catalog (example_rows ! 0)) \<and>
   (batch_map_skus unicode_fragment extract_equal example_rows (u ''amazon'') small_catalog ! 0)
     ''mapping_method'' = Some (PStr (u ''automatic'')) \<and>
   batch_map_skus_rows unicode_fragment extract_equal [Dict (example_rows ! 0)] (u ''amazon'')
     small_catalog
     = Inr [batch_map_skus unicode_fragment extract_equal example_rows (u ''amazon'')
              small_catalog ! 0]"
proof -
  let ?out = "batch_map_skus unicode_fragment extract_equal example_rows (u ''amazon'') small_catalog"
  let ?item = "map_item unicode_fragment extract_equal (u ''amazon'') small_catalog"
  have len: "length example_rows = 4" by (simp add: example_rows_def)
  have s0: "(example_rows ! 0) ''sku'' = Some (PStr (u ''b001122334''))"
    and s1: "(example_rows ! 1) ''sku'' = None"
    and s2: "(example_rows ! 2) ''sku'' = Some PNone"
    by (simp_all add: example_rows_def)
  have "isl (?item (example_rows ! 1)) \<and>
     projl (?item (example_rows ! 1)) = KeyError (quoted (u ''sku''))" by code_simp
  then have e1: "?item (example_rows ! 1) = Inl (KeyError (quoted (u ''sku'')))"
    by (cases "?item (example_rows ! 1)") simp_all
  have c0: "clean_sku unicode_fragment (PStr (u ''b001122334'')) = Inr (u ''B001122334'')"
    by code_simp
  have f0: "find_existing_product extract_equal
     (apply_marketplace_rules unicode_fragment (u ''B001122334'') (u ''amazon''))
     (u ''amazon'') small_catalog = Inr (Some widget)" by code_simp
  have a0: "(projr (?item (example_rows ! 0)) ++ (example_rows ! 0)) ''mapping_method''
       = Some (PStr (u ''automatic''))" by code_simp
  note t = batch_map_skus_isolation
    [of unicode_fragment extract_equal example_rows "u ''amazon''" small_catalog]
  from t have r: "batch_map_skus_rows unicode_fragment extract_equal (map Dict example_rows)
      (u ''amazon'') small_catalog = Inr ?out" by blast
  from t len have l: "length ?out = 4" by simp
  from t len s0 c0 f0 have n0: "\<not> isl (?item (example_rows ! 0))" by auto
  then have d0: "?item (example_rows ! 0) = Inr (projr (?item (example_rows ! 0)))"
    by (cases "?item (example_rows ! 0)") simp_all
  from t len have k0: "batch_map_skus_rows unicode_fragment extract_equal
      [Dict (example_rows ! 0)] (u ''amazon'') small_catalog = Inr [?out ! 0]"
    "?out ! 0 = projr (?item (example_rows ! 0)) ++ (example_rows ! 0)"
    using d0 by auto
  from t len e1 have k1: "(?out ! 1) ''mapping_method'' = Some (PStr (u ''failed''))"
    "(?out ! 1) ''confidence'' = Some (PFloat 0.0)"
    "(?out ! 1) ''error'' = Some (PStr (quoted (u ''sku'')))"
    by auto
  from t len s2 have k2: "isl (?item (example_rows ! 2))" by auto
  from r l s0 s1 s2 c0 f0 n0 k0 k1 k2 a0 show ?thesis by simp
qed

text \<open>
  An empty list as SKU is falsy and has a length, so it passes \<open>_clean_sku\<close>,
  \<open>validate_sku\<close> and \<open>len\<close> and is mapped without an exception.
\<close>

lemma map_sku_empty_list:
  "\<not> isl (map_sku unicode_fragment extract_equal (PList []) (u ''amazon'') empty_catalog)"
  by code_simp

text \<open>
  A row that is not a dictionary is outside that domain: the handler raises on it, and
  the exception leaves the batch.
\<close>

lemma batch_map_skus_rows_not_dict:
  "isl (batch_map_skus_rows U fz [NotDict v] mp db)"
  by (simp add: batch_map_skus_rows_def)

text \<open>
  An empty SKU is not a failure of the mapping: the row is mapped, with method \<open>manual\<close>
  and confidence 0.6 on an empty catalog, and its record has no \<open>error\<close>.
\<close>

theorem batch_blank_sku_not_failed:
  "(batch_map_skus unicode_fragment extract_equal [ [''sku'' \<mapsto> PStr []] ] (u ''amazon'')
      empty_catalog ! 0) ''mapping_method'' = Some (PStr (u ''manual'')) \<and>
   (batch_map_skus unicode_fragment extract_equal [ [''sku'' \<mapsto> PStr []] ] (u ''amazon'')
      empty_catalog ! 0) ''confidence'' = Some (PFloat 0.6) \<and>
   (batch_map_skus unicode_fragment extract_equal [ [''sku'' \<mapsto> PStr []] ] (u ''amazon'')
      empty_catalog ! 0) ''error'' = None"
  by code_simp

text \<open>
  C7. Every result of \<open>map_sku\<close> has a confidence in [0, 1] and a known method. So has
  the record of a row of a batch whose mapping raised, and the record of any row that
  does not itself carry the key \<open>confidence\<close> (for the confidence) or \<open>mapping_method\<close>
  (for the method).
\<close>

theorem confidence_and_method_invariant:
  "(\<forall>d. map_sku U fz v mp db = Inr d \<longrightarrow> confidence_in_range d \<and> method_known d) \<and>
   (\<forall>k<length items.
      (isl (map_item U fz mp db (items ! k)) \<or> (items ! k) ''confidence'' = None
         \<longrightarrow> confidence_in_range (batch_map_skus U fz items mp db ! k)) \<and>
      (isl (map_item U fz mp db (items ! k)) \<or> (items ! k) ''mapping_method'' = None
         \<longrightarrow> method_known (batch_map_skus U fz items mp db ! k)))"
  using map_sku_invariant batch_item_invariant by (simp add: batch_map_skus_map)

theorem confidence_and_method_invariant_witness:
  "map_sku unicode_fragment extract_equal (PStr (u ''x!'')) (u ''etsy'') empty_catalog =
     Inr (projr (map_sku unicode_fragment extract_equal (PStr (u ''x!'')) (u ''etsy'')
            empty_catalog)) \<and>
   confidence_in_range (projr (map_sku unicode_fragment extract_equal (PStr (u ''x!''))
     (u ''etsy'') empty_catalog)) \<and>
   method_known (projr (map_sku unicode_fragment extract_equal (PStr (u ''x!''))
     (u ''etsy'') empty_catalog)) \<and>
   (0::nat) < length example_rows \<and> (example_rows ! 0) ''confidence'' = None \<and>
   confidence_in_range
     (batch_map_skus unicode_fragment extract_equal example_rows (u ''etsy'') empty_catalog ! 0) \<and>
   (2::nat) < length example_rows \<and>
   isl (map_item unicode_fragment extract_equal (u ''etsy'') empty_catalog (example_rows ! 2)) \<and>
   method_known
     (batch_map_skus unicode_fragment extract_equal example_rows (u ''etsy'') empty_catalog ! 2)"
proof -
  let ?a = "map_sku unicode_fragment extract_equal (PStr (u ''x!'')) (u ''etsy'') empty_catalog"
  have "\<not> isl ?a" by code_simp
  then have ea: "?a = Inr (projr ?a)" by (cases ?a) simp_all
  have l: "(0::nat) < length example_rows" "(2::nat) < length example_rows"
    by (simp_all add: example_rows_def)
  have n: "(example_rows ! 0) ''confidence'' = None" by (simp add: example_rows_def)
  have f: "isl (map_item unicode_fragment extract_equal (u ''etsy'') empty_catalog
    (example_rows ! 2))" by code_simp
  note t = confidence_and_method_invariant
    [of unicode_fragment extract_equal "PStr (u ''x!'')" "u ''etsy''" empty_catalog example_rows]
  from t ea l n f show ?thesis by blast
qed

text \<open>
  A row that carries \<open>confidence\<close> and \<open>mapping_method\<close> overwrites the computed ones:
  the record has the confidence 5 and the method \<open>imported\<close> of the row.
\<close>

theorem batch_confidence_overridden:
  "(batch_map_skus unicode_fragment extract_equal
      [ [''sku'' \<mapsto> PStr (u ''x''), ''confidence'' \<mapsto> PFloat 5,
        ''mapping_method'' \<mapsto> PStr (u ''imported'')] ]
      (u ''amazon'') empty_catalog ! 0) ''confidence'' = Some (PFloat 5) \<and>
   (batch_map_skus unicode_fragment extract_equal
      [ [''sku'' \<mapsto> PStr (u ''x''), ''confidence'' \<mapsto> PFloat 5,
        ''mapping_method'' \<mapsto> PStr (u ''imported'')] ]
      (u ''amazon'') empty_catalog ! 0) ''mapping_method'' = Some (PStr (u ''imported'')) \<and>
   \<not> confidence_in_range (batch_map_skus unicode_fragment extract_equal
      [ [''sku'' \<mapsto> PStr (u ''x''), ''confidence'' \<mapsto> PFloat 5,
        ''mapping_method'' \<mapsto> PStr (u ''imported'')] ]
      (u ''amazon'') empty_catalog ! 0) \<and>
   \<not> method_known (batch_map_skus unicode_fragment extract_equal
      [ [''sku'' \<mapsto> PStr (u ''x''), ''confidence'' \<mapsto> PFloat 5,
        ''mapping_method'' \<mapsto> PStr (u ''imported'')] ]
      (u ''amazon'') empty_catalog ! 0)"
  by code_simp

text \<open>
  C10. When the mapping of row k returns, every key of the row is in the record of the
  row with the value of the row, also when the mapping computed a field of that name;
  the other keys have the computed values.
\<close>

theorem batch_record_keeps_item:
  assumes "k < length items" and "map_item U fz mp db (items ! k) = Inr d"
  shows "(\<forall>key val. (items ! k) key = Some val \<longrightarrow>
            (batch_map_skus U fz items mp db ! k) key = Some val) \<and>
         (\<forall>key. (items ! k) key = None \<longrightarrow>
            (batch_map_skus U fz items mp db ! k) key = d key)"
  using assms by (simp add: batch_map_skus_map batch_item_success map_add_def)

theorem batch_record_keeps_item_witness:
  "(3::nat) < length example_rows \<and>
   map_item unicode_fragment extract_equal (u ''amazon'') small_catalog (example_rows ! 3) =
     Inr (projr (map_item unicode_fragment extract_equal (u ''amazon'') small_catalog
       (example_rows ! 3))) \<and>
   projr (map_item unicode_fragment extract_equal (u ''amazon'') small_catalog
       (example_rows ! 3)) ''mapped_sku'' = Some (PStr (u ''AMZ-B001122334'')) \<and>
   (example_rows ! 3) ''mapped_sku'' = Some (PInt 7) \<and>
   (batch_map_skus unicode_fragment extract_equal example_rows (u ''amazon'') small_catalog ! 3)
     ''mapped_sku'' = Some (PInt 7) \<and>
   (example_rows ! 3) ''notes'' = Some (PStr (u ''from the sheet'')) \<and>
   (batch_map_skus unicode_fragment extract_equal example_rows (u ''amazon'') small_catalog ! 3)
     ''notes'' = Some (PStr (u ''from the sheet'')) \<and>
   (example_rows ! 3) ''msku'' = None \<and>
   (batch_map_skus unicode_fragment extract_equal example_rows (u ''amazon'') small_catalog ! 3)
     ''msku'' = Some (PStr (u ''MSKU-0001''))"
proof -
  let ?r = "map_item unicode_fragment extract_equal (u ''amazon'') small_catalog (example_rows ! 3)"
  have c: "\<not> isl ?r \<and> projr ?r ''mapped_sku'' = Some (PStr (u ''AMZ-B001122334'')) \<and>
    projr ?r ''msku'' = Some (PStr (u ''MSKU-0001''))" by code_simp
  then have e: "?r = Inr (projr ?r)" by (cases ?r) simp_all
  have l: "(3::nat) < length example_rows" by (simp add: example_rows_def)
  have i: "(example_rows ! 3) ''mapped_sku'' = Some (PInt 7)"
    "(example_rows ! 3) ''notes'' = Some (PStr (u ''from the sheet''))"
    "(example_rows ! 3) ''msku'' = None"
    by (simp_all add: example_rows_def)
  from batch_record_keeps_item [OF l e] c e l i show ?thesis by simp
qed

section \<open>Properties of the batch validator\<close>

text \<open>Only a string is accepted, so a warning is always built from a string.\<close>

lemma validate_sku_True_str:
  assumes "validate_sku U v mk = Inr True"
  shows "\<exists>s. v = PStr s"
  using assms by (cases v) (auto simp: validate_sku_def split: if_splits)

lemma low_confidence_float:
  "m ''confidence'' = Some (PFloat c) \<Longrightarrow> low_confidence m = (c < 0.6)"
  by (simp add: low_confidence_def below_06_def)

lemma mapping_record_validate:
  assumes "mapping_record m"
  shows "\<exists>b. validate_sku U (dict_get m ''original_sku'') (dict_get m ''marketplace'') = Inr b"
proof -
  from assms have mk: "dict_get m ''marketplace'' = PNone \<or>
      (\<exists>t. dict_get m ''marketplace'' = PStr t)"
    by (auto simp: mapping_record_def split: pyval.splits)
  from assms have "dict_get m ''original_sku'' = PNone \<or>
      (\<exists>s. dict_get m ''original_sku'' = PStr s)"
    by (auto simp: mapping_record_def split: pyval.splits)
  then show ?thesis
  proof
    assume "dict_get m ''original_sku'' = PNone"
    then show ?thesis by (auto simp: validate_sku_def)
  next
    assume "\<exists>s. dict_get m ''original_sku'' = PStr s"
    then obtain s where "dict_get m ''original_sku'' = PStr s" ..
    with validate_sku_str [OF mk] show ?thesis by simp
  qed
qed

lemma mapping_record_below:
  assumes "mapping_record m"
  shows "\<exists>b. below_06 (case m ''confidence'' of None \<Rightarrow> PInt 0 | Some c \<Rightarrow> c) = Inr b"
  using assms
  by (auto simp: mapping_record_def below_06_def split: option.splits pyval.splits)

lemma validate_loop_step:
  assumes "mapping_record m"
  shows "validate_loop U (m # rest) (v, i, w) =
     validate_loop U rest
       (if format_valid U m then v @ [m] else v,
        if format_valid U m then i else i @ [m],
        if format_valid U m \<and> low_confidence m
        then w @ [warning_for (dict_get m ''original_sku'')] else w)"
proof -
  obtain b where b: "validate_sku U (dict_get m ''original_sku'') (dict_get m ''marketplace'') = Inr b"
    using mapping_record_validate [OF assms] by blast
  obtain l where l: "below_06 (case m ''confidence'' of None \<Rightarrow> PInt 0 | Some c \<Rightarrow> c) = Inr l"
    using mapping_record_below [OF assms] by blast
  show ?thesis
    by (cases b; cases l) (simp_all add: b l format_valid_def low_confidence_def)
qed

lemma validate_loop_result:
  assumes "list_all mapping_record ms"
  shows "validate_loop U ms (v, i, w) =
     Inr (v @ filter (format_valid U) ms,
          i @ filter (\<lambda>m. \<not> format_valid U m) ms,
          w @ map (\<lambda>m. warning_for (dict_get m ''original_sku''))
                (filter low_confidence (filter (format_valid U) ms)))"
  using assms
proof (induction ms arbitrary: v i w)
  case Nil
  show ?case by simp
next
  case (Cons m ms)
  from Cons.prems have m: "mapping_record m" and ms: "list_all mapping_record ms" by simp_all
  show ?case
    unfolding validate_loop_step [OF m] Cons.IH [OF ms]
    by simp
qed

lemma py_truediv_zero: "isl (py_truediv fl n 0)"
  by (simp add: py_truediv_def)

text \<open>
  C8. On mapping records whose \<open>original_sku\<close> and \<open>marketplace\<close> are strings or
  \<open>None\<close> (or absent) and whose \<open>confidence\<close> is absent or a number,
  \<open>validate_mapping_batch\<close> returns a report and raises nothing, not even on the
  empty sequence, where the division is not evaluated.
  \<open>valid\<close> holds the records whose \<open>original_sku\<close> passes the format validation for
  their marketplace, in order, and \<open>invalid\<close> the others; every valid record of
  confidence below 0.6 gives one warning and stays in \<open>valid\<close>; \<open>total_processed\<close> is
  the number of records; and \<open>success_rate\<close> is the float of the number of valid
  records divided by the total, or 0 for an empty sequence.
\<close>

theorem validate_mapping_batch_report:
  assumes "list_all mapping_record ms"
  shows "\<exists>r. validate_mapping_batch U fl ms = Inr r \<and>
     report_valid r = filter (format_valid U) ms \<and>
     report_invalid r = filter (\<lambda>m. \<not> format_valid U m) ms \<and>
     report_warnings r = map (\<lambda>m. warning_for (dict_get m ''original_sku''))
                           (filter low_confidence (filter (format_valid U) ms)) \<and>
     total_processed r = length ms \<and>
     success_rate r = (if ms = [] then 0
                       else fl (real (length (filter (format_valid U) ms)) / real (length ms)))"
proof -
  let ?valid = "filter (format_valid U) ms"
  let ?invalid = "filter (\<lambda>m. \<not> format_valid U m) ms"
  let ?warnings = "map (\<lambda>m. warning_for (dict_get m ''original_sku''))
                     (filter low_confidence ?valid)"
  let ?rate = "if ms = [] then 0 else fl (real (length ?valid) / real (length ms))"
  have loop: "validate_loop U ms ([], [], []) = Inr (?valid, ?invalid, ?warnings)"
    using validate_loop_result [OF assms, of U "[]" "[]" "[]"] by simp
  have rate: "(if ms \<noteq> [] then py_truediv fl (length ?valid) (length ms) else Inr 0) = Inr ?rate"
    by (simp add: py_truediv_def)
  let ?r = "\<lparr>report_valid = ?valid, report_invalid = ?invalid, report_warnings = ?warnings,
             total_processed = length ms, success_rate = ?rate\<rparr>"
  have "validate_mapping_batch U fl ms = Inr ?r"
    unfolding validate_mapping_batch_def loop by (simp only: rate prod.case sum.case)
  then show ?thesis by (intro exI [of _ ?r]) simp
qed

theorem validate_mapping_batch_report_witness:
  "list_all mapping_record example_mappings \<and>
   \<not> isl (validate_mapping_batch unicode_fragment exact_rounding example_mappings) \<and>
   report_valid (projr (validate_mapping_batch unicode_fragment exact_rounding example_mappings)) =
     [example_mappings ! 0, example_mappings ! 1] \<and>
   report_warnings (projr (validate_mapping_batch unicode_fragment exact_rounding example_mappings)) =
     [u ''Low confidence mapping for SKU: ab-1234''] \<and>
   total_processed (projr (validate_mapping_batch unicode_fragment exact_rounding example_mappings)) = 4 \<and>
   success_rate (projr (validate_mapping_batch unicode_fragment exact_rounding example_mappings)) = 0.5 \<and>
   success_rate (projr (validate_mapping_batch unicode_fragment exact_rounding [])) = 0"
proof -
  have a: "list_all mapping_record example_mappings" by code_simp
  have f: "list_all (\<lambda>k. format_valid unicode_fragment (example_mappings ! k)) [0, 1] \<and>
    list_all (\<lambda>k. \<not> format_valid unicode_fragment (example_mappings ! k)) [2, 3] \<and>
    \<not> low_confidence (example_mappings ! 0) \<and> low_confidence (example_mappings ! 1)"
    by code_simp
  have e: "example_mappings =
    [example_mappings ! 0, example_mappings ! 1, example_mappings ! 2, example_mappings ! 3]"
    by (simp add: example_mappings_def)
  have v: "filter (format_valid unicode_fragment) example_mappings =
    [example_mappings ! 0, example_mappings ! 1]"
    by (subst e) (use f in simp)
  have w: "warning_for (dict_get (example_mappings ! 1) ''original_sku'') =
    u ''Low confidence mapping for SKU: ab-1234''" by code_simp
  have n: "example_mappings \<noteq> []" "length example_mappings = 4"
    by (simp_all add: example_mappings_def)
  from validate_mapping_batch_report [OF a, of unicode_fragment exact_rounding]
    validate_mapping_batch_report [of "[]" unicode_fragment exact_rounding]
  show ?thesis using a v w n f by (auto simp: exact_rounding_def)
qed

text \<open>
  A row whose SKU is the number 5 fails in the batch, and its record keeps the number
  under \<open>original_sku\<close>; on that record \<open>validate_sku\<close> calls \<open>strip\<close> on the number, and
  \<open>validate_mapping_batch\<close> raises.
\<close>

theorem validate_mapping_batch_raises:
  "(batch_map_skus unicode_fragment extract_equal [ [''sku'' \<mapsto> PInt 5] ] (u ''amazon'')
      empty_catalog ! 0) ''mapping_method'' = Some (PStr (u ''failed'')) \<and>
   (batch_map_skus unicode_fragment extract_equal [ [''sku'' \<mapsto> PInt 5] ] (u ''amazon'')
      empty_catalog ! 0) ''original_sku'' = Some (PInt 5) \<and>
   isl (validate_mapping_batch unicode_fragment exact_rounding
      (batch_map_skus unicode_fragment extract_equal [ [''sku'' \<mapsto> PInt 5] ] (u ''amazon'')
         empty_catalog)) \<and>
   projl (validate_mapping_batch unicode_fragment exact_rounding
      (batch_map_skus unicode_fragment extract_equal [ [''sku'' \<mapsto> PInt 5] ] (u ''amazon'')
         empty_catalog)) =
     AttributeError (quoted (u ''int'') @ u '' object has no attribute '' @ quoted (u ''strip''))"
  by code_simp

end
